theory Spec2Isabelle
  imports Complex_Main
begin

section \<open>Metadata mediator: file paths by handle\<close>

text \<open>
  \<^verbatim>\<open>MetadataMediator\<close> resolves a handle to a file path through the maps of the active
  scene dataset. A \<^verbatim>\<open>std::map<std::string, std::string>\<close> is a partial function on
  strings. The glog stream is an output of each method: the model returns the lines a call
  logs next to its result, and the mediator itself, since the C++ methods are not
  \<^verbatim>\<open>const\<close>.
\<close>

datatype LogEntry = LogInfo string | LogWarning string | LogError string

record SceneDatasetAttributes =
  navmeshMap :: "string \<rightharpoonup> string"
  semanticSceneDescrMap :: "string \<rightharpoonup> string"

text \<open>
  The fields of the mediator that the path lookups read. The dataset manager
  (\<^verbatim>\<open>sceneDatasetAttributesManager_\<close>) is a library of dataset attributes by handle;
  \<^verbatim>\<open>getObjectByHandle\<close> is its lookup, with \<^verbatim>\<open>nullptr\<close> for an unknown handle.
  The remaining fields (\<^verbatim>\<open>simConfig_\<close>, \<^verbatim>\<open>physicsAttributesManager_\<close>) live in the
  record's extension: the functions below are defined for every extension. The members
  \<^verbatim>\<open>x_\<close> of the classes are the fields \<open>mm_x\<close> and \<open>cm_x\<close> of the records.
\<close>

record MetadataMediator =
  mm_activeSceneDataset :: string
  mm_currPhysicsManagerAttributes :: string
  mm_sceneDatasetAttributesManager :: "string \<rightharpoonup> SceneDatasetAttributes"

definition getObjectByHandle ::
  "(string \<rightharpoonup> SceneDatasetAttributes) \<Rightarrow> string \<Rightarrow> SceneDatasetAttributes option" where
  "getObjectByHandle mgr handle = mgr handle"

definition getActiveDSAttribs ::
  "'a MetadataMediator_scheme \<Rightarrow> SceneDatasetAttributes option \<times> LogEntry list" where
  "getActiveDSAttribs mm =
     (case getObjectByHandle (mm_sceneDatasetAttributesManager mm) (mm_activeSceneDataset mm) of
        None \<Rightarrow>
          (None,
           [LogError (''MetadataMediator::getActiveDSAttribs : Unable to set '' @
                      ''active dataset due to Unknown dataset named '' @
                      mm_activeSceneDataset mm @ ''. Aborting'')])
      | Some datasetAttr \<Rightarrow> (Some datasetAttr, []))"

definition getFilePathForHandle ::
  "'a MetadataMediator_scheme \<Rightarrow> string \<Rightarrow> (string \<rightharpoonup> string) \<Rightarrow> string
     \<Rightarrow> (string \<times> LogEntry list) \<times> 'a MetadataMediator_scheme" where
  "getFilePathForHandle mm assetHandle assetMapping msgString =
     (case assetMapping assetHandle of
        None \<Rightarrow>
          (([], [LogWarning (msgString @ '' (getAsset) : Unable to find file path for '' @
                             assetHandle @ ''.  Aborting.'')]), mm)
      | Some path \<Rightarrow> ((path, []), mm))"

definition getNavmeshPathByHandle ::
  "'a MetadataMediator_scheme \<Rightarrow> string
     \<Rightarrow> (string \<times> LogEntry list) \<times> 'a MetadataMediator_scheme" where
  "getNavmeshPathByHandle mm navMeshHandle =
     (case getActiveDSAttribs mm of
        (None, lg) \<Rightarrow>
          (([], lg @ [LogError (''MetadataMediator::getNavmeshPathByHandle : No active '' @
                               ''dataset has been specified so unable to determine path for '' @
                               navMeshHandle)]), mm)
      | (Some datasetAttr, lg) \<Rightarrow>
          (case getFilePathForHandle mm navMeshHandle (navmeshMap datasetAttr)
                  ''MetadataMediator::getNavmeshPathByHandle'' of
             ((path, lg'), mm') \<Rightarrow> ((path, lg @ lg'), mm')))"

definition getSemanticSceneDescriptorPathByHandle ::
  "'a MetadataMediator_scheme \<Rightarrow> string
     \<Rightarrow> (string \<times> LogEntry list) \<times> 'a MetadataMediator_scheme" where
  "getSemanticSceneDescriptorPathByHandle mm ssDescrHandle =
     (case getActiveDSAttribs mm of
        (None, lg) \<Rightarrow>
          (([], lg @ [LogError (''MetadataMediator::getSemanticSceneDescriptorPathByHandle : No '' @
                               ''active dataset has been specified so unable to determine path '' @
                               ''for '' @ ssDescrHandle)]), mm)
      | (Some datasetAttr, lg) \<Rightarrow>
          (case getFilePathForHandle mm ssDescrHandle (semanticSceneDescrMap datasetAttr)
                  ''MetadataMediator::getSemanticSceneDescriptorPathByHandle'' of
             ((path, lg'), mm') \<Rightarrow> ((path, lg @ lg'), mm')))"

text \<open>What a call returns, what it logs, and the mediator it leaves.\<close>

definition returned :: "('r \<times> LogEntry list) \<times> 's \<Rightarrow> 'r" where
  "returned out = fst (fst out)"

definition logs :: "('r \<times> LogEntry list) \<times> 's \<Rightarrow> LogEntry list" where
  "logs out = snd (fst out)"

definition isWarning :: "LogEntry \<Rightarrow> bool" where
  "isWarning e = (case e of LogWarning _ \<Rightarrow> True | _ \<Rightarrow> False)"

section \<open>Cube map render target\<close>

subsection \<open>Data\<close>

datatype TextureType = Color | Depth

text \<open>\<^verbatim>\<open>CubeMap::Flags\<close> is an \<^verbatim>\<open>EnumSet<Flag>\<close>: a set of flags, tested with \<^verbatim>\<open>&\<close>.\<close>

datatype Flag = ColorTexture | DepthTexture | BuildMipmap

type_synonym Flags = "Flag set"

type_synonym Vector2i = "int \<times> int"

datatype CubeMapCoordinate =
  PositiveX | NegativeX | PositiveY | NegativeY | PositiveZ | NegativeZ

datatype TextureFormat = RGBA8 | DepthComponent32F

datatype RenderbufferFormat = DepthComponent24

datatype PixelFormat = RGBA8Unorm | R32F | RGB32F

datatype SamplerWrapping = Repeat | ClampToEdge

datatype SamplerFilter = Nearest | Linear

datatype SamplerMipmap = MipBase | MipNearest | MipLinear

text \<open>
  An image in host memory: its pixel format, its size and its pixels in row order, each
  pixel the list of its channel values (kept as bit patterns, so that copying a channel
  is exact).
\<close>

record Image2D =
  pixelFormat :: PixelFormat
  pixelSize :: Vector2i
  pixelData :: "nat list list"

text \<open>
  A \<^verbatim>\<open>Magnum::GL::CubeMapTexture\<close>: sampler state, the immutable storage given by
  \<^verbatim>\<open>setStorage\<close> (level count, format, face size), the level-0 image of each face,
  and how often its mip chain has been generated.
\<close>

record CubeMapTexture =
  wrapping :: SamplerWrapping
  minificationFilter :: "SamplerFilter \<times> SamplerMipmap"
  magnificationFilter :: SamplerFilter
  storage :: "(int \<times> TextureFormat \<times> Vector2i) option"
  faceImage :: "CubeMapCoordinate \<Rightarrow> Image2D option"
  mipmapGenerations :: nat

datatype FramebufferAttachment =
    AttachedCubeFace nat CubeMapCoordinate int
  | AttachedRenderbuffer

record Framebuffer =
  viewport :: "Vector2i \<times> Vector2i"
  colorAttachments :: "nat \<rightharpoonup> FramebufferAttachment"
  depthAttachment :: "FramebufferAttachment option"
  drawMapping :: "(nat \<times> nat) list"

record Renderbuffer =
  renderbufferStorage :: "(RenderbufferFormat \<times> Vector2i) option"

text \<open>
  The textures are heap objects owned through \<^verbatim>\<open>std::unique_ptr\<close>: the object keeps
  their addresses, the store gives the texture at an address. A texture lives as long as
  a \<^verbatim>\<open>unique_ptr\<close> of the cube map holds its address: \<^verbatim>\<open>std::make_unique\<close> takes a
  fresh address, and assigning to a \<^verbatim>\<open>unique_ptr\<close> destroys the texture it held before,
  whose address no pointer of the cube map holds from then on.
  In \<^verbatim>\<open>textures_\<close>, \<open>None\<close> stands for a missing key as for a null pointer
  (\<^verbatim>\<open>operator[]\<close> does not tell them apart). \<^verbatim>\<open>frameBuffer_\<close> is \<open>None\<close> while it is
  \<^verbatim>\<open>NoCreate\<close>. The size is a C++ \<^verbatim>\<open>int\<close>; the code compares and copies it and never
  computes with it, so no operation on it can overflow and \<open>int\<close> carries it.
\<close>

record CubeMap =
  cm_flags :: Flags
  cm_imageSize :: int
  cm_textures :: "TextureType \<rightharpoonup> nat"
  cm_frameBuffer :: "Framebuffer option"
  cm_optionalDepthBuffer :: Renderbuffer

text \<open>
  What the calls do outside the object, in the order they do it: files opened and
  exported, log lines, the calls on a texture address (storage, upload, read-back, mip
  generation), and the calls on the framebuffer, the camera and the drawable groups. The
  pixels that a draw writes into the attached faces are the work of the graphics library
  and are not followed.
\<close>

datatype Event =
    EvOpenFile string
  | EvExportToFile string bool
  | EvLog LogEntry
  | EvSetStorage nat int TextureFormat Vector2i
  | EvSetSubImage nat CubeMapCoordinate Image2D
  | EvTextureImage nat CubeMapCoordinate
  | EvGenerateMipmap nat
  | EvBindFramebuffer
  | EvClearDepth
  | EvClearColor nat
  | EvUpdateOriginalViewingMatrix
  | EvSwitchToFace nat
  | EvRestoreTransformation
  | EvPrepareForDraw string
  | EvDraw string nat

record World =
  heap :: "nat \<Rightarrow> CubeMapTexture"
  nextAddr :: nat
  seamlessCubeMapTexture :: bool
  trace :: "Event list"

type_synonym State = "CubeMap \<times> World"

definition emit :: "Event list \<Rightarrow> World \<Rightarrow> World" where
  "emit evs w = w\<lparr>trace := trace w @ evs\<rparr>"

text \<open>
  A failed \<^verbatim>\<open>CORRADE_ASSERT\<close> or \<^verbatim>\<open>CORRADE_INTERNAL_ASSERT\<close> prints its message and
  aborts the process: an error value, one constructor for each assertion of the source,
  together with the trace up to the abort. \<open>NullDereference\<close> is the dereference of a
  null \<^verbatim>\<open>unique_ptr\<close>. \<open>UseAfterFree\<close> is a call through a raw pointer to a texture
  that has been destroyed, with the address in the pointer: undefined behaviour in C++,
  after which nothing is known of the run.
\<close>

datatype error =
    AssertTextureNotEnabled string TextureType
  | AssertFaceIndex nat
  | AssertImageSize int
  | InternalAssertImporter
  | AssertUnknownTextureType
  | InternalAssertImageData
  | AssertNotSquare
  | AssertSizeMismatch
  | InternalAssertFramebufferIncomplete
  | AssertCameraNotInSceneGraph
  | AssertViewport
  | NullDereference
  | UseAfterFree nat

type_synonym 'a result = "(error \<times> Event list) + 'a"

definition abort :: "error \<Rightarrow> World \<Rightarrow> 'a result" where
  "abort e w = Inl (e, trace w)"

text \<open>
  The collaborators outside the repository: whether the plugin manager can instantiate
  the image converter and the image importer, what \<^verbatim>\<open>exportToFile\<close> answers for an
  image and a file name, what \<^verbatim>\<open>openFile\<close> followed by \<^verbatim>\<open>image2D(0)\<close> yields for a
  file name, and whether the graphics library reports the framebuffer complete.
\<close>

record Env =
  converterAvailable :: bool
  importerAvailable :: bool
  exportToFile :: "Image2D \<Rightarrow> string \<Rightarrow> bool"
  importImage :: "string \<Rightarrow> Image2D option"
  checkStatusComplete :: "Framebuffer option \<Rightarrow> bool"

subsection \<open>Helpers of the source file\<close>

definition textureTypeSanityCheck :: "Flags \<Rightarrow> TextureType \<Rightarrow> string \<Rightarrow> error + unit" where
  "textureTypeSanityCheck flag type functionNameStr =
     (case type of
        Color \<Rightarrow>
          (if ColorTexture \<in> flag then Inr ()
           else Inl (AssertTextureNotEnabled functionNameStr Color))
      | Depth \<Rightarrow>
          (if DepthTexture \<in> flag then Inr ()
           else Inl (AssertTextureNotEnabled functionNameStr Depth)))"

text \<open>
  The values of \<^verbatim>\<open>Magnum::GL::CubeMapCoordinate\<close> are consecutive from \<^verbatim>\<open>PositiveX\<close>;
  the conversion adds the face index to \<^verbatim>\<open>PositiveX\<close>.
\<close>

definition cubeMapCoordinates :: "CubeMapCoordinate list" where
  "cubeMapCoordinates = [PositiveX, NegativeX, PositiveY, NegativeY, PositiveZ, NegativeZ]"

definition convertFaceIndexToCubeMapCoordinate :: "nat \<Rightarrow> error + CubeMapCoordinate" where
  "convertFaceIndexToCubeMapCoordinate faceIndex =
     (if faceIndex < 6 then Inr (cubeMapCoordinates ! faceIndex)
      else Inl (AssertFaceIndex faceIndex))"

definition getTextureTypeFilenameString :: "TextureType \<Rightarrow> string" where
  "getTextureTypeFilenameString type = (case type of Color \<Rightarrow> ''rgba'' | Depth \<Rightarrow> ''depth'')"

definition getPixelFormat :: "TextureType \<Rightarrow> PixelFormat" where
  "getPixelFormat type = (case type of Color \<Rightarrow> RGBA8Unorm | Depth \<Rightarrow> R32F)"

definition coordStrings :: "string list" where
  "coordStrings = [''+X'', ''-X'', ''+Y'', ''-Y'', ''+Z'', ''-Z'']"

text \<open>
  \<^verbatim>\<open>Magnum::Math::log2(UnsignedInt)\<close>, the integral base-2 logarithm of the graphics
  library: it shifts the number right until it is zero and counts the shifts after the
  first. \<^verbatim>\<open>recreateTexture\<close> passes it the size, which \<^verbatim>\<open>reset\<close> has asserted to be
  positive, so the conversion to \<^verbatim>\<open>UnsignedInt\<close> keeps its value.
\<close>

fun log2 :: "nat \<Rightarrow> nat" where
  "log2 number = (if number div 2 = 0 then 0 else Suc (log2 (number div 2)))"

declare log2.simps [simp del]

subsection \<open>Textures in the store\<close>

definition defaultTexture :: CubeMapTexture where
  "defaultTexture =
     \<lparr>wrapping = Repeat, minificationFilter = (Nearest, MipLinear),
      magnificationFilter = Linear, storage = None, faceImage = (\<lambda>_. None),
      mipmapGenerations = 0\<rparr>"

text \<open>
  \<^verbatim>\<open>textures_[type] = std::make_unique<CubeMapTexture>()\<close>: a new texture is made at a
  fresh address and the pointer of the type holds it; the texture that the pointer held
  before is destroyed, so its address is held no more.
\<close>

definition makeUniqueTexture :: "TextureType \<Rightarrow> State \<Rightarrow> nat \<times> State" where
  "makeUniqueTexture type s =
     (case s of (c, w) \<Rightarrow>
        (let a = nextAddr w
         in (a, (c\<lparr>cm_textures := (cm_textures c)(type \<mapsto> a)\<rparr>,
                 w\<lparr>heap := (heap w)(a := defaultTexture), nextAddr := Suc a\<rparr>))))"

text \<open>
  A texture is alive when a \<^verbatim>\<open>unique_ptr\<close> of the cube map holds its address; the
  two pointers of \<^verbatim>\<open>textures_\<close> are the only owners of textures here.
\<close>

definition live :: "CubeMap \<Rightarrow> nat \<Rightarrow> bool" where
  "live c a = (cm_textures c Color = Some a \<or> cm_textures c Depth = Some a)"

text \<open>
  The calls of the graphics library on the texture at an address: they change the
  texture there and leave an event with the address. The cube map makes them through its
  own \<^verbatim>\<open>unique_ptr\<close> (\<^verbatim>\<open>(*colorTexture).setStorage(...)\<close> after \<^verbatim>\<open>make_unique\<close>,
  \<^verbatim>\<open>textures_[TextureType::Color]->generateMipmap()\<close>), whose address is that of the
  texture it owns, or through a raw pointer, where \<open>throughPointer\<close> below guards them.
\<close>

definition onTexture :: "nat \<Rightarrow> (CubeMapTexture \<Rightarrow> CubeMapTexture) \<Rightarrow> World \<Rightarrow> World" where
  "onTexture a f w = w\<lparr>heap := (heap w)(a := f (heap w a))\<rparr>"

definition setStorage :: "nat \<Rightarrow> int \<Rightarrow> TextureFormat \<Rightarrow> Vector2i \<Rightarrow> World \<Rightarrow> World" where
  "setStorage a levels format sz w =
     emit [EvSetStorage a levels format sz]
       (onTexture a (\<lambda>t. t\<lparr>storage := Some (levels, format, sz)\<rparr>) w)"

definition setSubImage :: "nat \<Rightarrow> CubeMapCoordinate \<Rightarrow> Image2D \<Rightarrow> World \<Rightarrow> World" where
  "setSubImage a coord img w =
     emit [EvSetSubImage a coord img]
       (onTexture a (\<lambda>t. t\<lparr>faceImage := (faceImage t)(coord := Some img)\<rparr>) w)"

definition generateMipmap :: "nat \<Rightarrow> World \<Rightarrow> World" where
  "generateMipmap a w =
     emit [EvGenerateMipmap a]
       (onTexture a (\<lambda>t. t\<lparr>mipmapGenerations := Suc (mipmapGenerations t)\<rparr>) w)"

text \<open>
  \<^verbatim>\<open>texture.image(coord, 0, format)\<close> reads a face back into host memory, in the size
  of the storage.
\<close>

definition textureImage :: "World \<Rightarrow> nat \<Rightarrow> CubeMapCoordinate \<Rightarrow> PixelFormat \<Rightarrow> Image2D" where
  "textureImage w a coord format =
     (case faceImage (heap w a) coord of
        Some img \<Rightarrow> img\<lparr>pixelFormat := format\<rparr>
      | None \<Rightarrow>
          \<lparr>pixelFormat = format,
           pixelSize = (case storage (heap w a) of None \<Rightarrow> (0, 0) | Some (_, _, sz) \<Rightarrow> sz),
           pixelData = []\<rparr>)"

text \<open>
  A call through a raw pointer to a texture, as \<^verbatim>\<open>loadTexture\<close> makes them through its
  local variable \<^verbatim>\<open>texture\<close>. The pointer dangles when the texture has been destroyed
  since the pointer was taken, as \<^verbatim>\<open>reset\<close> does on its way through \<^verbatim>\<open>recreateTexture\<close>;
  the call is then a use after free, and the run ends there.
\<close>

definition throughPointer :: "nat \<Rightarrow> (World \<Rightarrow> World) \<Rightarrow> State \<Rightarrow> State result" where
  "throughPointer texture call s =
     (if live (fst s) texture then Inr (fst s, call (snd s))
      else abort (UseAfterFree texture) (snd s))"

subsection \<open>Construction and reset\<close>

text \<open>The two blocks of \<^verbatim>\<open>recreateTexture\<close>: the color texture, then the depth texture.\<close>

definition recreateColorTexture :: "Vector2i \<Rightarrow> State \<Rightarrow> State" where
  "recreateColorTexture sz s =
     (if ColorTexture \<in> cm_flags (fst s)
      then (case makeUniqueTexture Color s of (a, (c, w)) \<Rightarrow>
              (let w1 = onTexture a
                          (\<lambda>t. t\<lparr>wrapping := ClampToEdge,
                                 minificationFilter := (Linear, MipLinear),
                                 magnificationFilter := Linear\<rparr>) w
               in (c, if BuildMipmap \<in> cm_flags c
                      then setStorage a (int (log2 (nat (cm_imageSize c))) + 1) RGBA8 sz w1
                      else setStorage a 1 RGBA8 sz w1)))
      else s)"

definition recreateDepthTexture :: "Vector2i \<Rightarrow> State \<Rightarrow> State" where
  "recreateDepthTexture sz s =
     (if DepthTexture \<in> cm_flags (fst s)
      then (case makeUniqueTexture Depth s of (a, (c, w)) \<Rightarrow>
              (c, setStorage a 1 DepthComponent32F sz
                    (onTexture a
                       (\<lambda>t. t\<lparr>wrapping := ClampToEdge,
                              minificationFilter := (Nearest, MipBase),
                              magnificationFilter := Nearest\<rparr>) w)))
      else s)"

definition recreateTexture :: "State \<Rightarrow> State" where
  "recreateTexture s =
     (let sz = (cm_imageSize (fst s), cm_imageSize (fst s))
      in recreateDepthTexture sz (recreateColorTexture sz s))"

definition recreateFramebuffer :: "State \<Rightarrow> State" where
  "recreateFramebuffer s =
     (case s of (c, w) \<Rightarrow>
        (let viewportSize = (cm_imageSize c, cm_imageSize c)
         in (c\<lparr>cm_frameBuffer :=
                  Some \<lparr>viewport = ((0, 0), viewportSize), colorAttachments = Map.empty,
                        depthAttachment = None, drawMapping = []\<rparr>,
                cm_optionalDepthBuffer :=
                  \<lparr>renderbufferStorage = Some (DepthComponent24, viewportSize)\<rparr>\<rparr>,
             w)))"

text \<open>
  Calls on the framebuffer member. While it is \<^verbatim>\<open>NoCreate\<close> there is no framebuffer
  object of the cube map to change.
\<close>

definition onFramebuffer :: "(Framebuffer \<Rightarrow> Framebuffer) \<Rightarrow> CubeMap \<Rightarrow> CubeMap" where
  "onFramebuffer f c = c\<lparr>cm_frameBuffer := map_option f (cm_frameBuffer c)\<rparr>"

definition attachCubeMapTexture ::
  "nat \<Rightarrow> nat \<Rightarrow> CubeMapCoordinate \<Rightarrow> int \<Rightarrow> Framebuffer \<Rightarrow> Framebuffer" where
  "attachCubeMapTexture attachment a coord level fb =
     fb\<lparr>colorAttachments := (colorAttachments fb)(attachment \<mapsto> AttachedCubeFace a coord level)\<rparr>"

function attachColorFaces :: "nat \<Rightarrow> State \<Rightarrow> State result" where
  "attachColorFaces index s =
     (if index < 6 then
        (case convertFaceIndexToCubeMapCoordinate index of
           Inl e \<Rightarrow> abort e (snd s)
         | Inr cubeMapCoord \<Rightarrow>
             (case cm_textures (fst s) Color of
                None \<Rightarrow> abort NullDereference (snd s)
              | Some a \<Rightarrow>
                  attachColorFaces (index + 1)
                    (onFramebuffer (attachCubeMapTexture index a cubeMapCoord 0) (fst s), snd s)))
      else Inr s)"
  by pat_completeness auto
termination
  by (relation "measure (\<lambda>(index, s). 6 - index)") auto

declare attachColorFaces.simps [simp del]

definition attachFramebufferRenderbuffer :: "State \<Rightarrow> State result" where
  "attachFramebufferRenderbuffer s =
     (case (if ColorTexture \<in> cm_flags (fst s) then attachColorFaces 0 s else Inr s) of
        Inl e \<Rightarrow> Inl e
      | Inr (c, w) \<Rightarrow>
          Inr (if DepthTexture \<notin> cm_flags c
               then onFramebuffer (\<lambda>fb. fb\<lparr>depthAttachment := Some AttachedRenderbuffer\<rparr>) c
               else c, w))"

definition reset :: "int \<Rightarrow> State \<Rightarrow> (bool \<times> State) result" where
  "reset imageSize s =
     (case s of (c, w) \<Rightarrow>
        if cm_imageSize c = imageSize then Inr (False, s)
        else
          (let c1 = c\<lparr>cm_imageSize := imageSize\<rparr>
           in if \<not> 0 < cm_imageSize c1 then abort (AssertImageSize imageSize) w
              else
                (case attachFramebufferRenderbuffer
                        (recreateFramebuffer (recreateTexture (c1, w))) of
                   Inl e \<Rightarrow> Inl e
                 | Inr s' \<Rightarrow> Inr (True, s'))))"

text \<open>
  The constructor: the members take their initialisers (\<^verbatim>\<open>imageSize_ = 0\<close>, no
  textures, a \<^verbatim>\<open>NoCreate\<close> framebuffer, a renderbuffer without storage), seamless cube
  map sampling is enabled, and \<^verbatim>\<open>reset\<close> does the rest; its result is dropped.
\<close>

definition CubeMap_init :: "Flags \<Rightarrow> CubeMap" where
  "CubeMap_init flags =
     \<lparr>cm_flags = flags, cm_imageSize = 0, cm_textures = Map.empty, cm_frameBuffer = None,
      cm_optionalDepthBuffer = \<lparr>renderbufferStorage = None\<rparr>\<rparr>"

definition CubeMap_new :: "int \<Rightarrow> Flags \<Rightarrow> World \<Rightarrow> State result" where
  "CubeMap_new imageSize flags w =
     (case reset imageSize (CubeMap_init flags, w\<lparr>seamlessCubeMapTexture := True\<rparr>) of
        Inl e \<Rightarrow> Inl e
      | Inr (_, s) \<Rightarrow> Inr s)"

definition emptyWorld :: World where
  "emptyWorld =
     \<lparr>heap = (\<lambda>a. defaultTexture), nextAddr = 0, seamlessCubeMapTexture = False, trace = []\<rparr>"

text \<open>
  The level count of the texture a cube map holds for a type, if it holds one with
  storage.
\<close>

definition textureLevels :: "State \<Rightarrow> TextureType \<Rightarrow> int option" where
  "textureLevels s type =
     (case cm_textures (fst s) type of
        None \<Rightarrow> None
      | Some a \<Rightarrow>
          (case storage (heap (snd s) a) of None \<Rightarrow> None | Some (levels, _, _) \<Rightarrow> Some levels))"

subsection \<open>Access and persistence\<close>

definition getTexture :: "TextureType \<Rightarrow> State \<Rightarrow> nat result" where
  "getTexture type s =
     (case textureTypeSanityCheck (cm_flags (fst s)) type ''CubeMap::getTexture():'' of
        Inl e \<Rightarrow> abort e (snd s)
      | Inr _ \<Rightarrow>
          (case cm_textures (fst s) type of
             None \<Rightarrow> abort NullDereference (snd s)
           | Some a \<Rightarrow> Inr a))"

definition saveFilename :: "TextureType \<Rightarrow> string \<Rightarrow> nat \<Rightarrow> string" where
  "saveFilename type imageFilePrefix iFace =
     (case type of
        Color \<Rightarrow>
          imageFilePrefix @ ''.'' @ getTextureTypeFilenameString type @ ''.'' @
          coordStrings ! iFace @ ''.png''
      | Depth \<Rightarrow>
          imageFilePrefix @ ''.'' @ getTextureTypeFilenameString type @ ''.'' @
          coordStrings ! iFace @ ''.hdr'')"

definition showFace :: "nat \<Rightarrow> string" where
  "showFace iFace = [''0123456789'' ! iFace]"

function saveFaces :: "Env \<Rightarrow> TextureType \<Rightarrow> string \<Rightarrow> nat \<Rightarrow> State \<Rightarrow> (bool \<times> State) result" where
  "saveFaces env type imageFilePrefix iFace s =
     (if iFace < 6 then
        (case cm_textures (fst s) type of
           None \<Rightarrow> abort NullDereference (snd s)
         | Some a \<Rightarrow>
             (case convertFaceIndexToCubeMapCoordinate iFace of
                Inl e \<Rightarrow> abort e (snd s)
              | Inr coord \<Rightarrow>
                  (let img = textureImage (snd s) a coord (getPixelFormat type);
                       w1 = emit [EvTextureImage a coord] (snd s);
                       filename = saveFilename type imageFilePrefix iFace
                   in if filename = [] then abort AssertUnknownTextureType w1
                      else if \<not> exportToFile env img filename
                      then Inr (False, (fst s, emit [EvExportToFile filename False] w1))
                      else saveFaces env type imageFilePrefix (iFace + 1)
                             (fst s,
                              emit [EvExportToFile filename True,
                                    EvLog (LogInfo (''Saved image '' @ showFace iFace @
                                                    '' to '' @ filename))] w1))))
      else Inr (True, s))"
  by pat_completeness auto
termination
  by (relation "measure (\<lambda>(env, type, imageFilePrefix, iFace, s). 6 - iFace)") auto

declare saveFaces.simps [simp del]

definition saveTexture :: "Env \<Rightarrow> TextureType \<Rightarrow> string \<Rightarrow> State \<Rightarrow> (bool \<times> State) result" where
  "saveTexture env type imageFilePrefix s =
     (case textureTypeSanityCheck (cm_flags (fst s)) type ''CubeMap::saveTexture():'' of
        Inl e \<Rightarrow> abort e (snd s)
      | Inr _ \<Rightarrow>
          if \<not> converterAvailable env then Inr (False, s)
          else saveFaces env type imageFilePrefix 0 s)"

definition loadFilename :: "TextureType \<Rightarrow> string \<Rightarrow> string \<Rightarrow> nat \<Rightarrow> string" where
  "loadFilename type imageFilePrefix imageFileExtension iFace =
     imageFilePrefix @ ''.'' @ getTextureTypeFilenameString type @ ''.'' @
     coordStrings ! iFace @ ''.'' @ imageFileExtension"

text \<open>
  The first half of the loop body of \<^verbatim>\<open>loadTexture\<close>: open the file of the face, check
  the image, and either reset to its size (first face) or compare with the size of the
  first face. It yields the image and the local variable \<^verbatim>\<open>imageSize\<close>.
\<close>

definition openAndCheckFace ::
  "Env \<Rightarrow> TextureType \<Rightarrow> string \<Rightarrow> string \<Rightarrow> nat \<Rightarrow> int \<Rightarrow> State
     \<Rightarrow> (Image2D \<times> int \<times> State) result" where
  "openAndCheckFace env type imageFilePrefix imageFileExtension iFace imageSize s =
     (let filename = loadFilename type imageFilePrefix imageFileExtension iFace;
          s1 = (fst s, emit [EvOpenFile filename] (snd s))
      in case importImage env filename of
           None \<Rightarrow> abort InternalAssertImageData (snd s1)
         | Some imageData \<Rightarrow>
             (let sz = pixelSize imageData
              in if fst sz \<noteq> snd sz then abort AssertNotSquare (snd s1)
                 else if iFace = 0 then
                   (case reset (fst sz) s1 of
                      Inl e \<Rightarrow> Inl e
                    | Inr (_, s2) \<Rightarrow> Inr (imageData, fst sz, s2))
                 else if fst sz \<noteq> imageSize then abort AssertSizeMismatch (snd s1)
                 else Inr (imageData, imageSize, s1)))"

text \<open>
  The second half: the upload through the pointer \<^verbatim>\<open>texture\<close>, which \<^verbatim>\<open>loadTexture\<close>
  took from \<^verbatim>\<open>textures_[type].get()\<close> before the loop. A depth image keeps the first
  channel of each pixel.
\<close>

definition depthImageView :: "Image2D \<Rightarrow> Image2D" where
  "depthImageView imageData =
     \<lparr>pixelFormat = R32F, pixelSize = pixelSize imageData,
      pixelData = map (take 1) (pixelData imageData)\<rparr>"

definition uploadFace ::
  "TextureType \<Rightarrow> nat \<Rightarrow> nat \<Rightarrow> Image2D \<Rightarrow> State \<Rightarrow> State result" where
  "uploadFace type texture iFace imageData s =
     (case convertFaceIndexToCubeMapCoordinate iFace of
        Inl e \<Rightarrow> abort e (snd s)
      | Inr coord \<Rightarrow>
          (case type of
             Color \<Rightarrow> throughPointer texture (setSubImage texture coord imageData) s
           | Depth \<Rightarrow>
               (let imageView = depthImageView imageData
                in throughPointer texture (setSubImage texture coord imageView) s)))"

function loadFaces ::
  "Env \<Rightarrow> TextureType \<Rightarrow> string \<Rightarrow> string \<Rightarrow> nat \<Rightarrow> nat \<Rightarrow> int \<Rightarrow> State \<Rightarrow> State result" where
  "loadFaces env type imageFilePrefix imageFileExtension texture iFace imageSize s =
     (if iFace < 6 then
        (case openAndCheckFace env type imageFilePrefix imageFileExtension iFace imageSize s of
           Inl e \<Rightarrow> Inl e
         | Inr (imageData, imageSize', s1) \<Rightarrow>
             (case uploadFace type texture iFace imageData s1 of
                Inl e \<Rightarrow> Inl e
              | Inr s2 \<Rightarrow>
                  loadFaces env type imageFilePrefix imageFileExtension texture (iFace + 1)
                    imageSize' s2))
      else Inr s)"
  by pat_completeness auto
termination
  by (relation "measure (\<lambda>(env, type, p, x, texture, iFace, imageSize, s). 6 - iFace)") auto

declare loadFaces.simps [simp del]

definition loadTexture :: "Env \<Rightarrow> TextureType \<Rightarrow> string \<Rightarrow> string \<Rightarrow> State \<Rightarrow> State result" where
  "loadTexture env type imageFilePrefix imageFileExtension s =
     (case textureTypeSanityCheck (cm_flags (fst s)) type ''CubeMap::loadTexture():'' of
        Inl e \<Rightarrow> abort e (snd s)
      | Inr _ \<Rightarrow>
          if \<not> importerAvailable env then abort InternalAssertImporter (snd s)
          else
            (case (case type of
                     Color \<Rightarrow> cm_textures (fst s) Color
                   | Depth \<Rightarrow> cm_textures (fst s) Depth) of
               None \<Rightarrow> abort AssertUnknownTextureType (snd s)
             | Some texture \<Rightarrow>
                 (case loadFaces env type imageFilePrefix imageFileExtension texture 0 0 s of
                    Inl e \<Rightarrow> Inl e
                  | Inr (c, w) \<Rightarrow>
                      if BuildMipmap \<in> cm_flags c \<and> ColorTexture \<in> cm_flags c
                      then throughPointer texture (generateMipmap texture) (c, w)
                      else Inr (c, w))))"

subsection \<open>Rendering\<close>

text \<open>
  Modelled from the spec: the class \<^verbatim>\<open>CubeMapCamera\<close> (\<^verbatim>\<open>esp/gfx/CubeMapCamera.h\<close>) and
  the scene graph are not among the sources. The specification gives the camera as
  "camera: set viewport, capture base orientation, rotate to face N, restore prior local
  transform": \<^verbatim>\<open>updateOriginalViewingMatrix\<close> snapshots the local transformation as the
  base orientation, \<^verbatim>\<open>switchToFace\<close> sets the local transformation to a rotation that is
  "a pure function of face index and base frame" (the parameter \<open>faceRotation\<close>), and
  \<^verbatim>\<open>restoreTransformation\<close> puts the snapshot back. Transformations are values of a type
  \<open>'m\<close>. The scene graph has an identity and its drawable groups, by name; preparing and
  drawing a group are calls on collaborators, which "never mutate" the render target and
  leave the camera's transformations alone.
\<close>

record 'm CubeMapCamera =
  cameraSceneGraph :: nat
  cameraViewport :: Vector2i
  localTransformation :: 'm
  originalViewingMatrix :: 'm

record SceneGraph =
  sceneGraphId :: nat
  drawableGroups :: "string list"

definition isInSceneGraph :: "'m CubeMapCamera \<Rightarrow> SceneGraph \<Rightarrow> bool" where
  "isInSceneGraph camera sceneGraph = (cameraSceneGraph camera = sceneGraphId sceneGraph)"

definition updateOriginalViewingMatrix :: "'m CubeMapCamera \<Rightarrow> 'm CubeMapCamera" where
  "updateOriginalViewingMatrix camera =
     camera\<lparr>originalViewingMatrix := localTransformation camera\<rparr>"

definition switchToFace :: "(nat \<Rightarrow> 'm \<Rightarrow> 'm) \<Rightarrow> nat \<Rightarrow> 'm CubeMapCamera \<Rightarrow> 'm CubeMapCamera" where
  "switchToFace faceRotation cubeSideIndex camera =
     camera\<lparr>localTransformation := faceRotation cubeSideIndex (originalViewingMatrix camera)\<rparr>"

definition restoreTransformation :: "'m CubeMapCamera \<Rightarrow> 'm CubeMapCamera" where
  "restoreTransformation camera =
     camera\<lparr>localTransformation := originalViewingMatrix camera\<rparr>"

text \<open>
  \<^verbatim>\<open>mapForDraw\<close> maps the color output of the shader (location 0) to the color attachment
  of the face.
\<close>

definition mapForDraw :: "nat \<Rightarrow> CubeMap \<Rightarrow> CubeMap" where
  "mapForDraw colorAttachmentIndex c =
     onFramebuffer (\<lambda>fb. fb\<lparr>drawMapping := [(0, colorAttachmentIndex)]\<rparr>) c"

definition prepareToDraw :: "Env \<Rightarrow> nat \<Rightarrow> State \<Rightarrow> State result" where
  "prepareToDraw env cubeSideIndex s =
     (let c1 = mapForDraw cubeSideIndex (fst s)
      in case (if DepthTexture \<in> cm_flags c1
               then (case convertFaceIndexToCubeMapCoordinate cubeSideIndex of
                       Inl e \<Rightarrow> abort e (snd s)
                     | Inr cubeMapCoord \<Rightarrow>
                         (case cm_textures c1 Depth of
                            None \<Rightarrow> abort NullDereference (snd s)
                          | Some a \<Rightarrow>
                              Inr (onFramebuffer
                                     (\<lambda>fb. fb\<lparr>depthAttachment :=
                                                 Some (AttachedCubeFace a cubeMapCoord 0)\<rparr>) c1)))
               else Inr c1) of
           Inl e \<Rightarrow> Inl e
         | Inr c2 \<Rightarrow>
             (let w1 = emit [EvClearDepth, EvClearColor 0] (snd s)
              in if checkStatusComplete env (cm_frameBuffer c2) then Inr (c2, w1)
                 else abort InternalAssertFramebufferIncomplete w1))"

text \<open>The face loop of \<^verbatim>\<open>renderToTexture\<close>, with the loop over the drawable groups inside.\<close>

definition drawGroups :: "SceneGraph \<Rightarrow> nat \<Rightarrow> Event list" where
  "drawGroups sceneGraph flags =
     concat (map (\<lambda>group. [EvPrepareForDraw group, EvDraw group flags])
               (drawableGroups sceneGraph))"

function renderFaces ::
  "Env \<Rightarrow> (nat \<Rightarrow> 'm \<Rightarrow> 'm) \<Rightarrow> SceneGraph \<Rightarrow> nat \<Rightarrow> nat \<Rightarrow> 'm CubeMapCamera \<Rightarrow> State
     \<Rightarrow> ('m CubeMapCamera \<times> State) result" where
  "renderFaces env faceRotation sceneGraph flags iFace camera s =
     (if iFace < 6 then
        (let camera1 = switchToFace faceRotation iFace camera;
             s1 = (fst s, emit [EvSwitchToFace iFace] (snd s))
         in case prepareToDraw env iFace s1 of
              Inl e \<Rightarrow> Inl e
            | Inr s2 \<Rightarrow>
                renderFaces env faceRotation sceneGraph flags (iFace + 1) camera1
                  (fst s2, emit (drawGroups sceneGraph flags) (snd s2)))
      else Inr (camera, s))"
  by pat_completeness auto
termination
  by (relation "measure (\<lambda>(env, faceRotation, sceneGraph, flags, iFace, camera, s). 6 - iFace)") auto

declare renderFaces.simps [simp del]

definition renderToTexture ::
  "Env \<Rightarrow> (nat \<Rightarrow> 'm \<Rightarrow> 'm) \<Rightarrow> 'm CubeMapCamera \<Rightarrow> SceneGraph \<Rightarrow> nat \<Rightarrow> State
     \<Rightarrow> ('m CubeMapCamera \<times> State) result" where
  "renderToTexture env faceRotation camera sceneGraph flags s =
     (if \<not> isInSceneGraph camera sceneGraph then abort AssertCameraNotInSceneGraph (snd s)
      else if cameraViewport camera \<noteq> (cm_imageSize (fst s), cm_imageSize (fst s))
      then abort AssertViewport (snd s)
      else
        (let camera1 = updateOriginalViewingMatrix camera;
             w1 = emit [EvUpdateOriginalViewingMatrix, EvBindFramebuffer] (snd s)
         in case renderFaces env faceRotation sceneGraph flags 0 camera1 (fst s, w1) of
              Inl e \<Rightarrow> Inl e
            | Inr (camera2, (c, w2)) \<Rightarrow>
                (let camera3 = restoreTransformation camera2;
                     w3 = emit [EvRestoreTransformation] w2
                 in if BuildMipmap \<in> cm_flags c \<and> ColorTexture \<in> cm_flags c
                    then (case cm_textures c Color of
                            None \<Rightarrow> abort NullDereference w3
                          | Some a \<Rightarrow> Inr (camera3, (c, generateMipmap a w3)))
                    else Inr (camera3, (c, w3)))))"

text \<open>The calls on the camera in a trace, in order.\<close>

definition cameraCalls :: "Event list \<Rightarrow> Event list" where
  "cameraCalls evs =
     filter (\<lambda>e. case e of
                    EvUpdateOriginalViewingMatrix \<Rightarrow> True
                  | EvSwitchToFace i \<Rightarrow> True
                  | EvRestoreTransformation \<Rightarrow> True
                  | _ \<Rightarrow> False) evs"

subsection \<open>States of a cube map\<close>

text \<open>
  The level counts that \<^verbatim>\<open>recreateTexture\<close> gives the textures of a cube map of the
  current size.
\<close>

definition mipPolicy :: "State \<Rightarrow> bool" where
  "mipPolicy s =
     ((ColorTexture \<in> cm_flags (fst s) \<longrightarrow>
         textureLevels s Color =
           Some (if BuildMipmap \<in> cm_flags (fst s)
                 then int (log2 (nat (cm_imageSize (fst s)))) + 1 else 1))
      \<and> (DepthTexture \<in> cm_flags (fst s) \<longrightarrow> textureLevels s Depth = Some 1))"

text \<open>
  The cube map owns its textures: their addresses have been allocated, and the two
  \<^verbatim>\<open>unique_ptr\<close>s do not hold the same texture.
\<close>

definition ownedBelow :: "State \<Rightarrow> bool" where
  "ownedBelow s =
     ((\<forall>type a. cm_textures (fst s) type = Some a \<longrightarrow> a < nextAddr (snd s))
      \<and> (\<forall>a. cm_textures (fst s) Color = Some a \<longrightarrow> cm_textures (fst s) Depth \<noteq> Some a))"

text \<open>
  Calls that keep the textures: the flags, the size, the addresses held and the storage of
  every texture in the store stay as they are.
\<close>

definition sameTextures :: "State \<Rightarrow> State \<Rightarrow> bool" where
  "sameTextures s s' =
     (cm_flags (fst s') = cm_flags (fst s) \<and> cm_imageSize (fst s') = cm_imageSize (fst s)
      \<and> cm_textures (fst s') = cm_textures (fst s) \<and> nextAddr (snd s') = nextAddr (snd s)
      \<and> (\<forall>a. storage (heap (snd s') a) = storage (heap (snd s) a)))"

definition wellFormed :: "State \<Rightarrow> bool" where
  "wellFormed s = (ownedBelow s \<and> (0 < cm_imageSize (fst s) \<longrightarrow> mipPolicy s))"

text \<open>
  The states of a cube map: made by the constructor, then reset, saved, loaded and rendered
  any number of times, with any collaborators. The cube map that a render leaves does
  not depend on the transformations of the camera, so the rule for a render takes a camera
  without them (\<open>plainCamera\<close>); lemma \<open>reachable_render\<close> below gives the rule for every
  camera.
\<close>

definition plainCamera :: "'m CubeMapCamera \<Rightarrow> unit CubeMapCamera" where
  "plainCamera camera =
     \<lparr>cameraSceneGraph = cameraSceneGraph camera, cameraViewport = cameraViewport camera,
      localTransformation = (), originalViewingMatrix = ()\<rparr>"

inductive reachable :: "State \<Rightarrow> bool" where
  new: "CubeMap_new imageSize flags w = Inr s \<Longrightarrow> reachable s"
| reset: "reachable s \<Longrightarrow> reset imageSize s = Inr (b, s') \<Longrightarrow> reachable s'"
| save: "reachable s \<Longrightarrow> saveTexture env type imageFilePrefix s = Inr (b, s') \<Longrightarrow> reachable s'"
| load: "reachable s \<Longrightarrow> loadTexture env type imageFilePrefix imageFileExtension s = Inr s'
           \<Longrightarrow> reachable s'"
| render: "reachable s
           \<Longrightarrow> renderToTexture env faceRotation (camera :: unit CubeMapCamera) sceneGraph flags s
                 = Inr (camera', s')
           \<Longrightarrow> reachable s'"

subsection \<open>Reading the trace\<close>

text \<open>
  The files opened, the files exported with success, the files whose export was tried,
  the faces uploaded and the faces read back (with the address of the texture), and the
  addresses whose mip chain was generated, each in the order of the events.
\<close>

definition openedFiles :: "Event list \<Rightarrow> string list" where
  "openedFiles evs = concat (map (\<lambda>e. case e of EvOpenFile f \<Rightarrow> [f] | _ \<Rightarrow> []) evs)"

definition exportedFiles :: "Event list \<Rightarrow> string list" where
  "exportedFiles evs =
     concat (map (\<lambda>e. case e of EvExportToFile f ok \<Rightarrow> (if ok then [f] else []) | _ \<Rightarrow> []) evs)"

definition attemptedExports :: "Event list \<Rightarrow> string list" where
  "attemptedExports evs =
     concat (map (\<lambda>e. case e of EvExportToFile f ok \<Rightarrow> [f] | _ \<Rightarrow> []) evs)"

definition uploadedFaces :: "Event list \<Rightarrow> (nat \<times> CubeMapCoordinate) list" where
  "uploadedFaces evs =
     concat (map (\<lambda>e. case e of EvSetSubImage a coord img \<Rightarrow> [(a, coord)] | _ \<Rightarrow> []) evs)"

definition readFaces :: "Event list \<Rightarrow> (nat \<times> CubeMapCoordinate) list" where
  "readFaces evs =
     concat (map (\<lambda>e. case e of EvTextureImage a coord \<Rightarrow> [(a, coord)] | _ \<Rightarrow> []) evs)"

definition mipmapTargets :: "Event list \<Rightarrow> nat list" where
  "mipmapTargets evs = concat (map (\<lambda>e. case e of EvGenerateMipmap a \<Rightarrow> [a] | _ \<Rightarrow> []) evs)"

definition storageOfSize :: "Vector2i \<Rightarrow> Event \<Rightarrow> bool" where
  "storageOfSize sz e = (case e of EvSetStorage a levels format sz' \<Rightarrow> sz' = sz | _ \<Rightarrow> False)"

text \<open>
  The events of one face that \<^verbatim>\<open>saveTexture\<close> saves, and of the face whose export fails.
\<close>

definition savedFaceEvents :: "nat \<Rightarrow> TextureType \<Rightarrow> string \<Rightarrow> nat \<Rightarrow> Event list" where
  "savedFaceEvents a type imageFilePrefix iFace =
     [EvTextureImage a (cubeMapCoordinates ! iFace),
      EvExportToFile (saveFilename type imageFilePrefix iFace) True,
      EvLog (LogInfo (''Saved image '' @ showFace iFace @ '' to '' @
                      saveFilename type imageFilePrefix iFace))]"

definition failedFaceEvents :: "nat \<Rightarrow> TextureType \<Rightarrow> string \<Rightarrow> nat \<Rightarrow> Event list" where
  "failedFaceEvents a type imageFilePrefix iFace =
     [EvTextureImage a (cubeMapCoordinates ! iFace),
      EvExportToFile (saveFilename type imageFilePrefix iFace) False]"

text \<open>Whether the export of a face succeeds, for the texture as it is in a world.\<close>

definition exportSucceeds :: "Env \<Rightarrow> World \<Rightarrow> nat \<Rightarrow> TextureType \<Rightarrow> string \<Rightarrow> nat \<Rightarrow> bool" where
  "exportSucceeds env w a type imageFilePrefix iFace =
     exportToFile env (textureImage w a (cubeMapCoordinates ! iFace) (getPixelFormat type))
       (saveFilename type imageFilePrefix iFace)"

subsection \<open>Reading a load\<close>


definition uploadImage :: "TextureType \<Rightarrow> Image2D \<Rightarrow> Image2D" where
  "uploadImage type imageData =
     (case type of Color \<Rightarrow> imageData | Depth \<Rightarrow> depthImageView imageData)"

definition faceAccepted :: "Env \<Rightarrow> TextureType \<Rightarrow> string \<Rightarrow> string \<Rightarrow> int \<Rightarrow> nat \<Rightarrow> bool" where
  "faceAccepted env type imageFilePrefix imageFileExtension edge iFace =
     (case importImage env (loadFilename type imageFilePrefix imageFileExtension iFace) of
        None \<Rightarrow> False
      | Some imageData \<Rightarrow> pixelSize imageData = (edge, edge))"

definition loadedFaceEvents ::
  "Env \<Rightarrow> TextureType \<Rightarrow> string \<Rightarrow> string \<Rightarrow> nat \<Rightarrow> nat \<Rightarrow> Event list" where
  "loadedFaceEvents env type imageFilePrefix imageFileExtension texture iFace =
     (case importImage env (loadFilename type imageFilePrefix imageFileExtension iFace) of
        None \<Rightarrow> [EvOpenFile (loadFilename type imageFilePrefix imageFileExtension iFace)]
      | Some imageData \<Rightarrow>
          [EvOpenFile (loadFilename type imageFilePrefix imageFileExtension iFace),
           EvSetSubImage texture (cubeMapCoordinates ! iFace) (uploadImage type imageData)])"

subsection \<open>Examples\<close>

text \<open>
  A cube map of size 4 with every capability, as its constructor leaves it in an empty
  world, and one with the color capability only.
\<close>

definition allFlags :: Flags where
  "allFlags = {ColorTexture, DepthTexture, BuildMipmap}"

definition constructed :: "int \<Rightarrow> Flags \<Rightarrow> State" where
  "constructed imageSize flags =
     (case CubeMap_new imageSize flags emptyWorld of
        Inr s \<Rightarrow> s
      | Inl _ \<Rightarrow> (CubeMap_init flags, emptyWorld))"

definition exampleCubeMap :: State where
  "exampleCubeMap = constructed 4 allFlags"

definition colorCubeMap :: State where
  "colorCubeMap = constructed 4 {ColorTexture}"

text \<open>
  Collaborators that always succeed: every export works, every file holds a 4 by 4 image
  of three channels, and the framebuffer is complete.
\<close>

definition exampleImage :: "int \<Rightarrow> int \<Rightarrow> Image2D" where
  "exampleImage width height =
     \<lparr>pixelFormat = RGB32F, pixelSize = (width, height),
      pixelData = replicate (nat (width * height)) [1, 1, 1]\<rparr>"

definition exampleEnv :: Env where
  "exampleEnv =
     \<lparr>converterAvailable = True, importerAvailable = True,
      exportToFile = (\<lambda>img filename. True),
      importImage = (\<lambda>filename. Some (exampleImage 4 4)),
      checkStatusComplete = (\<lambda>fb. True)\<rparr>"

subsection \<open>The file names as the specification words them\<close>

text \<open>
  The specification names the files \<^verbatim>\<open>{prefix}.{typeTag}.{faceTag}.{ext}\<close>, with the face
  tags in the order +X, -X, +Y, -Y, +Z, -Z, the type tags \<^verbatim>\<open>rgba\<close> and \<^verbatim>\<open>depth\<close>, and
  the extensions \<^verbatim>\<open>png\<close> and \<^verbatim>\<open>hdr\<close> on save. These definitions follow its words; the
  theorems compare them with the names the code builds.
\<close>

definition specFaceTags :: "string list" where
  "specFaceTags = [''+X'', ''-X'', ''+Y'', ''-Y'', ''+Z'', ''-Z'']"

definition specTypeTag :: "TextureType \<Rightarrow> string" where
  "specTypeTag type = (case type of Color \<Rightarrow> ''rgba'' | Depth \<Rightarrow> ''depth'')"

definition specSaveExtension :: "TextureType \<Rightarrow> string" where
  "specSaveExtension type = (case type of Color \<Rightarrow> ''png'' | Depth \<Rightarrow> ''hdr'')"

definition specFileNames :: "string \<Rightarrow> string \<Rightarrow> string \<Rightarrow> string list" where
  "specFileNames prefix typeTag ext =
     map (\<lambda>faceTag. prefix @ ''.'' @ typeTag @ ''.'' @ faceTag @ ''.'' @ ext) specFaceTags"

text \<open>The capability that a texture type needs.\<close>

definition capabilityOf :: "TextureType \<Rightarrow> Flag" where
  "capabilityOf type = (case type of Color \<Rightarrow> ColorTexture | Depth \<Rightarrow> DepthTexture)"

text \<open>Whether a call failed the check of \<^verbatim>\<open>textureTypeSanityCheck\<close>.\<close>

definition capabilityFailure :: "'a result \<Rightarrow> bool" where
  "capabilityFailure r =
     (case r of Inl (AssertTextureNotEnabled f t, tr) \<Rightarrow> True | _ \<Rightarrow> False)"

text \<open>A mediator with one dataset.\<close>

definition exampleMediator :: MetadataMediator where
  "exampleMediator =
     \<lparr>mm_activeSceneDataset = ''default'', mm_currPhysicsManagerAttributes = [],
      mm_sceneDatasetAttributesManager =
        [''default'' \<mapsto>
           \<lparr>navmeshMap = [''nav'' \<mapsto> ''nav.navmesh''],
            semanticSceneDescrMap = Map.empty\<rparr>]\<rparr>"

section \<open>Theorems\<close>

subsection \<open>Path lookup\<close>

text \<open>
  C10. \<^verbatim>\<open>getFilePathForHandle\<close> returns the mapped path when the handle is a key of the
  map, and the empty string with a logged warning when it is not. The two path getters
  return the empty string when there is no active dataset and when the handle is not in
  the dataset's map, and the mapped path otherwise. No call changes the mediator.
\<close>

theorem getFilePathForHandle_lookup:
  "(assetMapping assetHandle = Some path \<longrightarrow>
      returned (getFilePathForHandle mm assetHandle assetMapping msgString) = path)
   \<and> (assetMapping assetHandle = None \<longrightarrow>
        returned (getFilePathForHandle mm assetHandle assetMapping msgString) = []
        \<and> (\<exists>e \<in> set (logs (getFilePathForHandle mm assetHandle assetMapping msgString)).
              isWarning e))
   \<and> snd (getFilePathForHandle mm assetHandle assetMapping msgString) = mm
   \<and> (mm_sceneDatasetAttributesManager mm (mm_activeSceneDataset mm) = None \<longrightarrow>
        returned (getNavmeshPathByHandle mm assetHandle) = []
        \<and> returned (getSemanticSceneDescriptorPathByHandle mm assetHandle) = [])
   \<and> (\<forall>ds. mm_sceneDatasetAttributesManager mm (mm_activeSceneDataset mm) = Some ds \<longrightarrow>
         (navmeshMap ds assetHandle = None \<longrightarrow>
            returned (getNavmeshPathByHandle mm assetHandle) = [])
         \<and> (semanticSceneDescrMap ds assetHandle = None \<longrightarrow>
            returned (getSemanticSceneDescriptorPathByHandle mm assetHandle) = [])
         \<and> (\<forall>p. navmeshMap ds assetHandle = Some p \<longrightarrow>
            returned (getNavmeshPathByHandle mm assetHandle) = p)
         \<and> (\<forall>p. semanticSceneDescrMap ds assetHandle = Some p \<longrightarrow>
            returned (getSemanticSceneDescriptorPathByHandle mm assetHandle) = p))
   \<and> snd (getNavmeshPathByHandle mm assetHandle) = mm
   \<and> snd (getSemanticSceneDescriptorPathByHandle mm assetHandle) = mm"
  by (auto simp: getFilePathForHandle_def getNavmeshPathByHandle_def
      getSemanticSceneDescriptorPathByHandle_def getActiveDSAttribs_def getObjectByHandle_def
      returned_def logs_def isWarning_def split: option.splits)

theorem getFilePathForHandle_lookup_witness:
  "returned (getFilePathForHandle exampleMediator ''nav'' [''nav'' \<mapsto> ''nav.navmesh''] ''caller'')
     = ''nav.navmesh''
   \<and> returned (getFilePathForHandle exampleMediator ''gone'' [''nav'' \<mapsto> ''nav.navmesh''] ''caller'')
     = []
   \<and> returned (getNavmeshPathByHandle exampleMediator ''nav'') = ''nav.navmesh''
   \<and> returned (getNavmeshPathByHandle exampleMediator ''gone'') = []
   \<and> returned (getSemanticSceneDescriptorPathByHandle exampleMediator ''nav'') = []
   \<and> returned (getNavmeshPathByHandle
                   (exampleMediator\<lparr>mm_activeSceneDataset := ''other''\<rparr>) ''nav'') = []"
  using
    getFilePathForHandle_lookup [of "[''nav'' \<mapsto> ''nav.navmesh'']" "''nav''" "''nav.navmesh''"
      exampleMediator "''caller''"]
    getFilePathForHandle_lookup [of "[''nav'' \<mapsto> ''nav.navmesh'']" "''gone''" "[]"
      exampleMediator "''caller''"]
    getFilePathForHandle_lookup [of "[''nav'' \<mapsto> ''nav.navmesh'']" "''nav''" "[]"
      "exampleMediator\<lparr>mm_activeSceneDataset := ''other''\<rparr>" "''caller''"]
  by (simp add: exampleMediator_def)

subsection \<open>Reset\<close>


lemma recreateTexture_fields:
  "cm_flags (fst (recreateTexture s)) = cm_flags (fst s)"
  "cm_imageSize (fst (recreateTexture s)) = cm_imageSize (fst s)"
  "cm_frameBuffer (fst (recreateTexture s)) = cm_frameBuffer (fst s)"
  by (auto simp: recreateTexture_def recreateColorTexture_def recreateDepthTexture_def
      makeUniqueTexture_def Let_def split: prod.splits option.splits)

lemma recreateTexture_color:
  "ColorTexture \<in> cm_flags (fst s) \<Longrightarrow> \<exists>a. cm_textures (fst (recreateTexture s)) Color = Some a"
  by (auto simp: recreateTexture_def recreateColorTexture_def recreateDepthTexture_def
      makeUniqueTexture_def Let_def split: prod.splits option.splits)

lemma attachColorFaces_ok:
  "cm_textures (fst s) Color = Some a \<Longrightarrow>
   \<exists>fb. attachColorFaces index s = Inr ((fst s)\<lparr>cm_frameBuffer := fb\<rparr>, snd s)"
proof (induction index s rule: attachColorFaces.induct)
  case (1 index s)
  show ?case
  proof (cases "index < 6")
    case True
    then obtain coord where co: "convertFaceIndexToCubeMapCoordinate index = Inr coord"
      by (simp add: convertFaceIndexToCubeMapCoordinate_def)
    let ?s' = "(onFramebuffer (attachCubeMapTexture index a coord 0) (fst s), snd s)"
    have "\<exists>fb. attachColorFaces (index + 1) ?s' = Inr ((fst ?s')\<lparr>cm_frameBuffer := fb\<rparr>, snd ?s')"
      using "1.IH" [OF True co "1.prems"(1)] True "1.prems"(1)
      by (simp add: onFramebuffer_def)
    then show ?thesis
      using True co "1.prems"(1)
      by (subst attachColorFaces.simps) (auto simp: onFramebuffer_def)
  next
    case False
    then show ?thesis
      by (subst attachColorFaces.simps) (auto intro: exI [of _ "cm_frameBuffer (fst s)"])
  qed
qed

lemma attachFramebufferRenderbuffer_ok:
  assumes "ColorTexture \<in> cm_flags (fst s) \<Longrightarrow> \<exists>a. cm_textures (fst s) Color = Some a"
  shows "\<exists>fb. attachFramebufferRenderbuffer s = Inr ((fst s)\<lparr>cm_frameBuffer := fb\<rparr>, snd s)"
proof (cases "ColorTexture \<in> cm_flags (fst s)")
  case True
  with assms obtain a where "cm_textures (fst s) Color = Some a" by blast
  from attachColorFaces_ok [OF this, of 0] obtain fb
    where "attachColorFaces 0 s = Inr ((fst s)\<lparr>cm_frameBuffer := fb\<rparr>, snd s)" by blast
  with True show ?thesis
    by (auto simp: attachFramebufferRenderbuffer_def onFramebuffer_def)
next
  case False
  then show ?thesis
    by (cases s) (auto simp: attachFramebufferRenderbuffer_def onFramebuffer_def
        intro: exI [of _ "cm_frameBuffer (fst s)"])
qed

lemma recreateFramebuffer_fields:
  "cm_textures (fst (recreateFramebuffer s)) = cm_textures (fst s)"
  "cm_flags (fst (recreateFramebuffer s)) = cm_flags (fst s)"
  "cm_imageSize (fst (recreateFramebuffer s)) = cm_imageSize (fst s)"
  "snd (recreateFramebuffer s) = snd s"
  by (cases s; simp add: recreateFramebuffer_def Let_def)+

text \<open>What an actual reset leaves: the textures and the store are those of recreateTexture.\<close>

lemma reset_changed:
  assumes "cm_imageSize c \<noteq> S" "0 < S"
  shows "\<exists>fb. reset S (c, w) =
           Inr (True, ((fst (recreateFramebuffer (recreateTexture (c\<lparr>cm_imageSize := S\<rparr>, w))))
                          \<lparr>cm_frameBuffer := fb\<rparr>,
                       snd (recreateTexture (c\<lparr>cm_imageSize := S\<rparr>, w))))"
proof -
  let ?s = "recreateFramebuffer (recreateTexture (c\<lparr>cm_imageSize := S\<rparr>, w))"
  have tex: "cm_textures (fst ?s) = cm_textures (fst (recreateTexture (c\<lparr>cm_imageSize := S\<rparr>, w)))"
    and fl: "cm_flags (fst ?s) = cm_flags c"
    and w: "snd ?s = snd (recreateTexture (c\<lparr>cm_imageSize := S\<rparr>, w))"
    by (simp_all add: recreateFramebuffer_fields recreateTexture_fields)
  have "ColorTexture \<in> cm_flags (fst ?s) \<Longrightarrow> \<exists>a. cm_textures (fst ?s) Color = Some a"
    unfolding tex fl using recreateTexture_color [of "(c\<lparr>cm_imageSize := S\<rparr>, w)"] by simp
  from attachFramebufferRenderbuffer_ok [OF this] obtain fb
    where "attachFramebufferRenderbuffer ?s = Inr ((fst ?s)\<lparr>cm_frameBuffer := fb\<rparr>, snd ?s)"
    by blast
  with assms w show ?thesis
    by (auto simp: reset_def)
qed

lemma reset_same: "cm_imageSize (fst s) = S \<Longrightarrow> reset S s = Inr (False, s)"
  by (cases s) (simp add: reset_def)

lemma reset_abort:
  "cm_imageSize c \<noteq> S \<Longrightarrow> S \<le> 0 \<Longrightarrow> reset S (c, w) = Inl (AssertImageSize S, trace w)"
  by (simp add: reset_def abort_def)

lemma log2_floor: "0 < n \<Longrightarrow> int (log2 n) = \<lfloor>log 2 (real n)\<rfloor>"
proof (induction n rule: log2.induct)
  case (1 n)
  show ?case
  proof (cases "n div 2 = 0")
    case True
    with "1.prems" have "n = 1" by presburger
    then show ?thesis by (simp add: log2.simps)
  next
    case False
    then have n2: "2 \<le> n" and pos: "0 < n div 2" by presburger+
    have unfold: "log2 n = Suc (log2 (n div 2))"
      using False by (subst log2.simps) simp
    have "int (log2 (n div 2)) = \<lfloor>log 2 (real (n div 2))\<rfloor>"
      using "1.IH" [OF False pos] .
    with unfold floor_log2_div2 [OF n2] show ?thesis by simp
  qed
qed

lemma CubeMap_new_negative:
  "imageSize < 0 \<Longrightarrow> CubeMap_new imageSize flags w = Inl (AssertImageSize imageSize, trace w)"
  by (simp add: CubeMap_new_def CubeMap_init_def reset_def abort_def)

text \<open>
  C1, at size 0. The constructor starts from \<^verbatim>\<open>imageSize_ = 0\<close>, so \<^verbatim>\<open>reset(0)\<close> finds
  the size unchanged and returns before its assertion: the constructor yields a cube map of
  size 0 without textures and without a framebuffer. A negative size does reach the
  assertion.
\<close>

theorem CubeMap_new_zero_size:
  "CubeMap_new 0 {ColorTexture} emptyWorld
     = Inr (CubeMap_init {ColorTexture}, emptyWorld\<lparr>seamlessCubeMapTexture := True\<rparr>)"
  by (simp add: CubeMap_new_def CubeMap_init_def reset_def)

subsection \<open>Mip levels\<close>

lemma recreateColorTexture_levels:
  assumes "ColorTexture \<in> cm_flags (fst s)" "ownedBelow s"
  shows "textureLevels (recreateColorTexture sz s) Color =
           Some (if BuildMipmap \<in> cm_flags (fst s)
                 then int (log2 (nat (cm_imageSize (fst s)))) + 1 else 1)"
  using assms
  by (cases s) (auto simp add: ownedBelow_def recreateColorTexture_def makeUniqueTexture_def textureLevels_def
      setStorage_def onTexture_def emit_def Let_def split: option.splits)

lemma recreateColorTexture_owned:
  "ownedBelow s \<Longrightarrow> ownedBelow (recreateColorTexture sz s)"
  by (cases s) (auto simp: ownedBelow_def recreateColorTexture_def makeUniqueTexture_def
      setStorage_def onTexture_def emit_def Let_def less_Suc_eq split: option.splits)

lemma recreateColorTexture_fields:
  "cm_flags (fst (recreateColorTexture sz s)) = cm_flags (fst s)"
  "cm_imageSize (fst (recreateColorTexture sz s)) = cm_imageSize (fst s)"
  by (cases s; simp add: recreateColorTexture_def makeUniqueTexture_def Let_def)+

lemma recreateDepthTexture_levels:
  assumes "DepthTexture \<in> cm_flags (fst s)" "ownedBelow s"
  shows "textureLevels (recreateDepthTexture sz s) Depth = Some 1"
  using assms
  by (cases s) (auto simp add: ownedBelow_def recreateDepthTexture_def makeUniqueTexture_def textureLevels_def
      setStorage_def onTexture_def emit_def Let_def split: option.splits)

lemma recreateDepthTexture_keeps_color:
  assumes "ownedBelow s"
  shows "textureLevels (recreateDepthTexture sz s) Color = textureLevels s Color"
proof (cases s)
  case (Pair c w)
  show ?thesis
  proof (cases "cm_textures c Color")
    case None
    with Pair show ?thesis
      by (simp add: recreateDepthTexture_def makeUniqueTexture_def textureLevels_def Let_def)
  next
    case (Some a)
    with assms Pair have "a < nextAddr w" by (simp add: ownedBelow_def)
    with Some Pair assms show ?thesis
      by (auto simp add: recreateDepthTexture_def makeUniqueTexture_def textureLevels_def
      setStorage_def onTexture_def emit_def Let_def ownedBelow_def split: option.splits)
  qed
qed


lemma recreateDepthTexture_owned:
  "ownedBelow s \<Longrightarrow> ownedBelow (recreateDepthTexture sz s)"
  by (cases s) (auto simp: ownedBelow_def recreateDepthTexture_def makeUniqueTexture_def
      setStorage_def onTexture_def emit_def Let_def less_Suc_eq split: option.splits)

lemma recreateDepthTexture_fields:
  "cm_flags (fst (recreateDepthTexture sz s)) = cm_flags (fst s)"
  "cm_imageSize (fst (recreateDepthTexture sz s)) = cm_imageSize (fst s)"
  by (cases s; simp add: recreateDepthTexture_def makeUniqueTexture_def Let_def)+

lemma recreateTexture_policy:
  assumes "ownedBelow s"
  shows "mipPolicy (recreateTexture s)" and "ownedBelow (recreateTexture s)"
proof -
  let ?sz = "(cm_imageSize (fst s), cm_imageSize (fst s))"
  let ?s1 = "recreateColorTexture ?sz s"
  have o1: "ownedBelow ?s1" using assms by (rule recreateColorTexture_owned)
  show "ownedBelow (recreateTexture s)"
    unfolding recreateTexture_def Let_def using o1 by (rule recreateDepthTexture_owned)
  have "ColorTexture \<in> cm_flags (fst s) \<Longrightarrow>
        textureLevels (recreateDepthTexture ?sz ?s1) Color =
          Some (if BuildMipmap \<in> cm_flags (fst s)
                then int (log2 (nat (cm_imageSize (fst s)))) + 1 else 1)"
    using recreateDepthTexture_keeps_color [OF o1] recreateColorTexture_levels [OF _ assms]
    by simp
  moreover have "DepthTexture \<in> cm_flags (fst s) \<Longrightarrow>
        textureLevels (recreateDepthTexture ?sz ?s1) Depth = Some 1"
    using recreateDepthTexture_levels [OF _ o1] by (simp add: recreateColorTexture_fields)
  ultimately show "mipPolicy (recreateTexture s)"
    by (simp add: mipPolicy_def recreateTexture_def Let_def recreateDepthTexture_fields
        recreateColorTexture_fields)
qed


lemma textureLevels_cong:
  assumes "cm_textures (fst s') = cm_textures (fst s)" "heap (snd s') = heap (snd s)"
  shows "textureLevels s' type = textureLevels s type"
  unfolding textureLevels_def assms by (rule refl)

lemma mipPolicy_cong:
  assumes "cm_flags (fst s') = cm_flags (fst s)" "cm_imageSize (fst s') = cm_imageSize (fst s)"
    "cm_textures (fst s') = cm_textures (fst s)" "heap (snd s') = heap (snd s)"
  shows "mipPolicy s' = mipPolicy s"
  using assms(1,2) textureLevels_cong [OF assms(3,4)] by (simp add: mipPolicy_def)

lemma ownedBelow_cong:
  assumes "cm_textures (fst s') = cm_textures (fst s)" "nextAddr (snd s') = nextAddr (snd s)"
  shows "ownedBelow s' = ownedBelow s"
  using assms by (simp add: ownedBelow_def)

lemma reset_inv:
  assumes own: "ownedBelow s" and r: "reset S s = Inr (b, s')"
  shows "ownedBelow s'" and "cm_flags (fst s') = cm_flags (fst s)"
    and "b \<Longrightarrow> mipPolicy s' \<and> cm_imageSize (fst s') = S \<and> 0 < S"
    and "\<not> b \<Longrightarrow> s' = s"
proof -
  obtain c w where s: "s = (c, w)" by (cases s)
  show "\<not> b \<Longrightarrow> s' = s"
    using r s by (auto simp: reset_def abort_def Let_def split: if_splits sum.splits)
  have "ownedBelow s' \<and> cm_flags (fst s') = cm_flags (fst s)
        \<and> (b \<longrightarrow> mipPolicy s' \<and> cm_imageSize (fst s') = S \<and> 0 < S)"
  proof (cases "cm_imageSize c = S")
    case True
    with r s own show ?thesis by (simp add: reset_def)
  next
    case False
    show ?thesis
    proof (cases "0 < S")
      case neg: False
      with False r s show ?thesis by (simp add: reset_abort)
    next
      case True
      let ?s0 = "(c\<lparr>cm_imageSize := S\<rparr>, w)"
      from reset_changed [OF False True, of w] r s obtain fb where
        s': "s' = ((fst (recreateFramebuffer (recreateTexture ?s0)))\<lparr>cm_frameBuffer := fb\<rparr>,
                   snd (recreateTexture ?s0))" and b: "b"
        by auto
      have own0: "ownedBelow ?s0" using own s by (simp add: ownedBelow_def)
      have eqs: "cm_flags (fst s') = cm_flags c" "cm_imageSize (fst s') = S"
        "cm_textures (fst s') = cm_textures (fst (recreateTexture ?s0))"
        by (simp_all add: s' recreateFramebuffer_fields recreateTexture_fields)
      have "mipPolicy s' = mipPolicy (recreateTexture ?s0)"
        by (rule mipPolicy_cong) (simp_all add: eqs recreateTexture_fields, simp add: s')
      moreover have "ownedBelow s' = ownedBelow (recreateTexture ?s0)"
        by (rule ownedBelow_cong) (simp_all add: eqs, simp add: s')
      ultimately show ?thesis
        using recreateTexture_policy [OF own0] eqs True s by simp
    qed
  qed
  then show "ownedBelow s'" and "cm_flags (fst s') = cm_flags (fst s)"
    and "b \<Longrightarrow> mipPolicy s' \<and> cm_imageSize (fst s') = S \<and> 0 < S"
    by simp_all
qed

lemma CubeMap_new_inv:
  assumes "CubeMap_new S F w = Inr s"
  shows "ownedBelow s" and "cm_flags (fst s) = F"
    and "0 < cm_imageSize (fst s) \<Longrightarrow> mipPolicy s"
proof -
  let ?s0 = "(CubeMap_init F, w\<lparr>seamlessCubeMapTexture := True\<rparr>)"
  from assms obtain b where r: "reset S ?s0 = Inr (b, s)"
    by (auto simp: CubeMap_new_def split: sum.splits)
  have own0: "ownedBelow ?s0" by (simp add: ownedBelow_def CubeMap_init_def)
  show "ownedBelow s" using reset_inv(1) [OF own0 r] .
  show "cm_flags (fst s) = F" using reset_inv(2) [OF own0 r] by (simp add: CubeMap_init_def)
  show "mipPolicy s" if "0 < cm_imageSize (fst s)"
  proof (cases b)
    case True
    then show ?thesis using reset_inv(3) [OF own0 r] by simp
  next
    case False
    then have "s = ?s0" using reset_inv(4) [OF own0 r] by simp
    with that show ?thesis by (simp add: CubeMap_init_def)
  qed
qed

subsection \<open>Traces of the texture calls and of reset\<close>

lemma emit_simps [simp]:
  "heap (emit evs w) = heap w" "nextAddr (emit evs w) = nextAddr w"
  "trace (emit evs w) = trace w @ evs"
  by (simp_all add: emit_def)

lemma onTexture_simps [simp]:
  "nextAddr (onTexture a f w) = nextAddr w" "trace (onTexture a f w) = trace w"
  by (simp_all add: onTexture_def split: option.splits)

lemma setStorage_trace [simp]:
  "trace (setStorage a levels format sz w) = trace w @ [EvSetStorage a levels format sz]"
  by (simp add: setStorage_def)

lemma setSubImage_trace [simp]:
  "trace (setSubImage a coord img w) = trace w @ [EvSetSubImage a coord img]"
  by (simp add: setSubImage_def)

lemma generateMipmap_trace [simp]:
  "trace (generateMipmap a w) = trace w @ [EvGenerateMipmap a]"
  by (simp add: generateMipmap_def)

lemma makeUniqueTexture_trace [simp]:
  "trace (snd (snd (makeUniqueTexture type s))) = trace (snd s)"
  by (cases s) (simp add: makeUniqueTexture_def Let_def)

lemma recreateColorTexture_trace:
  "\<exists>evs. trace (snd (recreateColorTexture sz s)) = trace (snd s) @ evs
         \<and> (\<forall>e \<in> set evs. storageOfSize sz e)
         \<and> (ColorTexture \<in> cm_flags (fst s) \<longrightarrow> evs \<noteq> [])"
proof (cases "ColorTexture \<in> cm_flags (fst s)")
  case True
  obtain a c w where m: "makeUniqueTexture Color s = (a, (c, w))"
    by (metis prod.exhaust)
  then have "trace w = trace (snd s)"
    using makeUniqueTexture_trace [of Color s] by simp
  with True m show ?thesis
    by (auto simp: recreateColorTexture_def Let_def storageOfSize_def)
next
  case False
  then show ?thesis by (simp add: recreateColorTexture_def)
qed

lemma recreateDepthTexture_trace:
  "\<exists>evs. trace (snd (recreateDepthTexture sz s)) = trace (snd s) @ evs
         \<and> (\<forall>e \<in> set evs. storageOfSize sz e)
         \<and> (DepthTexture \<in> cm_flags (fst s) \<longrightarrow> evs \<noteq> [])"
proof (cases "DepthTexture \<in> cm_flags (fst s)")
  case True
  obtain a c w where m: "makeUniqueTexture Depth s = (a, (c, w))"
    by (metis prod.exhaust)
  then have "trace w = trace (snd s)"
    using makeUniqueTexture_trace [of Depth s] by simp
  with True m show ?thesis
    by (auto simp: recreateDepthTexture_def Let_def storageOfSize_def)
next
  case False
  then show ?thesis by (simp add: recreateDepthTexture_def)
qed

lemma recreateTexture_trace:
  "\<exists>evs. trace (snd (recreateTexture s)) = trace (snd s) @ evs
         \<and> (\<forall>e \<in> set evs. storageOfSize (cm_imageSize (fst s), cm_imageSize (fst s)) e)
         \<and> (ColorTexture \<in> cm_flags (fst s) \<or> DepthTexture \<in> cm_flags (fst s) \<longrightarrow> evs \<noteq> [])"
proof -
  let ?sz = "(cm_imageSize (fst s), cm_imageSize (fst s))"
  obtain evs1 where 1: "trace (snd (recreateColorTexture ?sz s)) = trace (snd s) @ evs1"
    "\<forall>e \<in> set evs1. storageOfSize ?sz e" "ColorTexture \<in> cm_flags (fst s) \<longrightarrow> evs1 \<noteq> []"
    using recreateColorTexture_trace [of ?sz s] by blast
  obtain evs2 where 2: "trace (snd (recreateTexture s)) = trace (snd (recreateColorTexture ?sz s)) @ evs2"
    "\<forall>e \<in> set evs2. storageOfSize ?sz e" "DepthTexture \<in> cm_flags (fst s) \<longrightarrow> evs2 \<noteq> []"
    using recreateDepthTexture_trace [of ?sz "recreateColorTexture ?sz s"]
    by (auto simp: recreateTexture_def Let_def recreateColorTexture_fields)
  show ?thesis
    using 1 2 by (intro exI [of _ "evs1 @ evs2"]) auto
qed

lemma reset_trace:
  assumes "reset S s = Inr (b, s')"
  shows "\<exists>evs. trace (snd s') = trace (snd s) @ evs
           \<and> (\<forall>e \<in> set evs. storageOfSize (S, S) e)
           \<and> (b \<and> (ColorTexture \<in> cm_flags (fst s) \<or> DepthTexture \<in> cm_flags (fst s))
                \<longrightarrow> evs \<noteq> [])"
proof (cases "cm_imageSize (fst s) = S")
  case True
  with assms show ?thesis by (simp add: reset_same)
next
  case False
  obtain c w where s: "s = (c, w)" by (cases s)
  with False assms have pos: "0 < S"
    by (cases "0 < S") (simp_all add: reset_abort)
  from reset_changed [of c S w] False pos s assms
  have "snd s' = snd (recreateTexture (c\<lparr>cm_imageSize := S\<rparr>, w))" by auto
  with recreateTexture_trace [of "(c\<lparr>cm_imageSize := S\<rparr>, w)"] s show ?thesis by auto
qed

lemma reset_error:
  assumes "reset S s = Inl (e, tr)"
  shows "e = AssertImageSize S \<and> tr = trace (snd s)"
proof -
  obtain c w where s: "s = (c, w)" by (cases s)
  show ?thesis
  proof (cases "cm_imageSize c = S")
    case True
    with assms s show ?thesis by (simp add: reset_same)
  next
    case False
    with assms s reset_changed [of c S w] reset_abort [of c S w] show ?thesis
      by (cases "0 < S") auto
  qed
qed

subsection \<open>Saving\<close>

lemma emit_emit [simp]: "emit evs2 (emit evs1 w) = emit (evs1 @ evs2) w"
  by (simp add: emit_def)

lemma emit_Nil [simp]: "emit [] w = w"
  by (simp add: emit_def)

lemma textureImage_emit [simp]: "textureImage (emit evs w) = textureImage w"
  by (rule ext)+ (simp add: textureImage_def split: option.splits)

lemma exportSucceeds_emit [simp]:
  "exportSucceeds env (emit evs w) = exportSucceeds env w"
  by (rule ext)+ (simp add: exportSucceeds_def)

lemma saveFilename_nonempty: "saveFilename type imageFilePrefix iFace \<noteq> []"
  by (cases type) (simp_all add: saveFilename_def)

lemma saveFaces_done: "\<not> iFace < 6 \<Longrightarrow> saveFaces env type p iFace s = Inr (True, s)"
  by (subst saveFaces.simps) simp

lemma saveFaces_null:
  "iFace < 6 \<Longrightarrow> cm_textures (fst s) type = None \<Longrightarrow>
   saveFaces env type p iFace s = Inl (NullDereference, trace (snd s))"
  by (subst saveFaces.simps) (simp add: abort_def)

lemma saveFaces_step_ok:
  assumes "iFace < 6" "cm_textures (fst s) type = Some a"
    "exportSucceeds env (snd s) a type p iFace"
  shows "saveFaces env type p iFace s =
           saveFaces env type p (iFace + 1) (fst s, emit (savedFaceEvents a type p iFace) (snd s))"
  using assms
  by (subst saveFaces.simps)
     (simp add: convertFaceIndexToCubeMapCoordinate_def exportSucceeds_def Let_def
        saveFilename_nonempty savedFaceEvents_def)

lemma saveFaces_step_fail:
  assumes "iFace < 6" "cm_textures (fst s) type = Some a"
    "\<not> exportSucceeds env (snd s) a type p iFace"
  shows "saveFaces env type p iFace s =
           Inr (False, (fst s, emit (failedFaceEvents a type p iFace) (snd s)))"
  using assms
  by (subst saveFaces.simps)
     (simp add: convertFaceIndexToCubeMapCoordinate_def exportSucceeds_def Let_def
        saveFilename_nonempty failedFaceEvents_def)

text \<open>
  The loop from face \<open>i\<close>: it saves the faces up to the first one whose export fails,
  \<open>k\<close>, and returns false there; without such a face it saves all and returns true.
\<close>

lemma saveFaces_run:
  assumes tex: "cm_textures (fst s) type = Some a" and "i \<le> 6"
  shows "\<exists>k. i \<le> k \<and> k \<le> 6
           \<and> (\<forall>j. i \<le> j \<and> j < k \<longrightarrow> exportSucceeds env (snd s) a type p j)
           \<and> (k = 6 \<longrightarrow>
                  saveFaces env type p i s =
                    Inr (True, (fst s, emit (concat (map (savedFaceEvents a type p) [i..<6]))
                                         (snd s))))
           \<and> (k \<noteq> 6 \<longrightarrow>
                  \<not> exportSucceeds env (snd s) a type p k
                  \<and> saveFaces env type p i s =
                      Inr (False, (fst s, emit (concat (map (savedFaceEvents a type p) [i..<k])
                                                @ failedFaceEvents a type p k) (snd s))))"
  using assms
proof (induction "6 - i" arbitrary: i s)
  case 0
  then have "i = 6" by simp
  then show ?case
    by (intro exI [of _ 6]) (auto simp: saveFaces_done)
next
  case (Suc n)
  then have i: "i < 6" by simp
  show ?case
  proof (cases "exportSucceeds env (snd s) a type p i")
    case False
    with i Suc.prems show ?thesis
      by (intro exI [of _ i]) (auto simp: saveFaces_step_fail)
  next
    case True
    let ?s' = "(fst s, emit (savedFaceEvents a type p i) (snd s))"
    have "n = 6 - (i + 1)" using Suc.hyps(2) by simp
    from Suc.hyps(1) [OF this, of ?s'] Suc.prems i
    obtain k where k: "i + 1 \<le> k" "k \<le> 6"
      "\<forall>j. i + 1 \<le> j \<and> j < k \<longrightarrow> exportSucceeds env (snd s) a type p j"
      "k = 6 \<longrightarrow>
         saveFaces env type p (i + 1) ?s' =
           Inr (True, (fst s, emit (savedFaceEvents a type p i
                                     @ concat (map (savedFaceEvents a type p) [i + 1..<6]))
                                (snd s)))"
      "k \<noteq> 6 \<longrightarrow>
         \<not> exportSucceeds env (snd s) a type p k
         \<and> saveFaces env type p (i + 1) ?s' =
             Inr (False, (fst s, emit (savedFaceEvents a type p i
                                       @ concat (map (savedFaceEvents a type p) [i + 1..<k])
                                       @ failedFaceEvents a type p k) (snd s)))"
      by auto
    have up: "\<And>m. i < m \<Longrightarrow> [i..<m] = i # [i + 1..<m]"
      by (simp add: upt_conv_Cons)
    have all: "\<forall>j. i \<le> j \<and> j < k \<longrightarrow> exportSucceeds env (snd s) a type p j"
      using k(3) True by (metis Suc_eq_plus1 Suc_leI le_neq_implies_less)
    show ?thesis
      using k(1,2,4,5) all i saveFaces_step_ok [OF i Suc.prems(1) True]
      by (intro exI [of _ k]) (auto simp: up)
  qed
qed

subsection \<open>Loading\<close>

text \<open>
  A call through a pointer that a \<^verbatim>\<open>unique_ptr\<close> of the cube map still holds is the call
  on the texture; a call through a pointer that dangles aborts.
\<close>

lemma throughPointer_live:
  "live (fst s) texture \<Longrightarrow> throughPointer texture call s = Inr (fst s, call (snd s))"
  by (simp add: throughPointer_def)

lemma throughPointer_dangling:
  "\<not> live (fst s) texture \<Longrightarrow>
   throughPointer texture call s = Inl (UseAfterFree texture, trace (snd s))"
  by (simp add: throughPointer_def abort_def)

lemma live_held: "cm_textures c type = Some texture \<Longrightarrow> live c texture"
  by (cases type) (simp_all add: live_def)

lemma uploadFace_eq:
  "iFace < 6 \<Longrightarrow>
   uploadFace type texture iFace imageData s =
     throughPointer texture
       (setSubImage texture (cubeMapCoordinates ! iFace) (uploadImage type imageData)) s"
  by (cases type)
     (simp_all add: uploadFace_def convertFaceIndexToCubeMapCoordinate_def uploadImage_def)

lemma uploadFace_ok:
  "iFace < 6 \<Longrightarrow> live (fst s) texture \<Longrightarrow>
   uploadFace type texture iFace imageData s =
     Inr (fst s, setSubImage texture (cubeMapCoordinates ! iFace) (uploadImage type imageData) (snd s))"
  by (simp add: uploadFace_eq throughPointer_live)

lemma uploadFace_dangling:
  "iFace < 6 \<Longrightarrow> \<not> live (fst s) texture \<Longrightarrow>
   uploadFace type texture iFace imageData s = Inl (UseAfterFree texture, trace (snd s))"
  by (simp add: uploadFace_eq throughPointer_dangling)

text \<open>A later face: accepted when its image is a square of the edge of the first face.\<close>

lemma openAndCheckFace_later_ok:
  assumes "0 < iFace" "faceAccepted env type p x edge iFace"
  shows "\<exists>imageData.
           importImage env (loadFilename type p x iFace) = Some imageData
           \<and> openAndCheckFace env type p x iFace edge s =
               Inr (imageData, edge, (fst s, emit [EvOpenFile (loadFilename type p x iFace)] (snd s)))"
  using assms
  by (auto simp: openAndCheckFace_def faceAccepted_def Let_def prod_eq_iff split: option.splits)

lemma openAndCheckFace_later_abort:
  assumes "0 < iFace" "\<not> faceAccepted env type p x edge iFace"
  shows "\<exists>e. openAndCheckFace env type p x iFace edge s =
               Inl (e, trace (snd s) @ [EvOpenFile (loadFilename type p x iFace)])
             \<and> e \<in> {InternalAssertImageData, AssertNotSquare, AssertSizeMismatch}"
  using assms
  by (auto simp: openAndCheckFace_def faceAccepted_def Let_def abort_def prod_eq_iff
      split: option.splits)

lemma loadFaces_done: "\<not> iFace < 6 \<Longrightarrow> loadFaces env type p x texture iFace edge s = Inr s"
  by (subst loadFaces.simps) simp

lemma loadFaces_step_ok:
  assumes "0 < iFace" "iFace < 6" "faceAccepted env type p x edge iFace"
    and "live (fst s) texture"
  shows "loadFaces env type p x texture iFace edge s =
           loadFaces env type p x texture (iFace + 1) edge
             (fst s,
              setSubImage texture (cubeMapCoordinates ! iFace)
                (uploadImage type (the (importImage env (loadFilename type p x iFace))))
                (emit [EvOpenFile (loadFilename type p x iFace)] (snd s)))"
  using openAndCheckFace_later_ok [OF assms(1,3), of s] assms(2,4)
  by (subst loadFaces.simps) (auto simp: uploadFace_ok)

lemma loadFaces_step_dangling:
  assumes "0 < iFace" "iFace < 6" "faceAccepted env type p x edge iFace"
    and "\<not> live (fst s) texture"
  shows "loadFaces env type p x texture iFace edge s =
           Inl (UseAfterFree texture, trace (snd s) @ [EvOpenFile (loadFilename type p x iFace)])"
  using openAndCheckFace_later_ok [OF assms(1,3), of s] assms(2,4)
  by (subst loadFaces.simps) (auto simp: uploadFace_dangling)

lemma loadFaces_step_abort:
  assumes "0 < iFace" "iFace < 6" "\<not> faceAccepted env type p x edge iFace"
  shows "\<exists>e. loadFaces env type p x texture iFace edge s =
               Inl (e, trace (snd s) @ [EvOpenFile (loadFilename type p x iFace)])
             \<and> e \<in> {InternalAssertImageData, AssertNotSquare, AssertSizeMismatch}"
  using openAndCheckFace_later_abort [OF assms(1,3), of s] assms(2)
  by (subst loadFaces.simps) auto


lemma loadedFaceEvents_accepted:
  "faceAccepted env type p x edge j \<Longrightarrow>
   loadedFaceEvents env type p x texture j =
     [EvOpenFile (loadFilename type p x j),
      EvSetSubImage texture (cubeMapCoordinates ! j)
        (uploadImage type (the (importImage env (loadFilename type p x j))))]"
  by (auto simp: loadedFaceEvents_def faceAccepted_def split: option.splits)

text \<open>
  The loop from a later face \<open>i\<close>, with a pointer that does not dangle: it loads the
  faces up to the first one that is not accepted, \<open>k\<close>, and aborts after opening its
  file; without such a face it loads all.
\<close>

lemma loadFaces_run:
  assumes "0 < i" "i \<le> 6" "live (fst s) texture"
  shows "\<exists>k. i \<le> k \<and> k \<le> 6
           \<and> (\<forall>j. i \<le> j \<and> j < k \<longrightarrow> faceAccepted env type p x edge j)
           \<and> (k = 6 \<longrightarrow>
                 (\<exists>w'. loadFaces env type p x texture i edge s = Inr (fst s, w')
                    \<and> trace w' = trace (snd s)
                          @ concat (map (loadedFaceEvents env type p x texture) [i..<6])))
           \<and> (k \<noteq> 6 \<longrightarrow>
                 \<not> faceAccepted env type p x edge k
                 \<and> (\<exists>e. loadFaces env type p x texture i edge s =
                           Inl (e, trace (snd s)
                                   @ concat (map (loadedFaceEvents env type p x texture) [i..<k])
                                   @ [EvOpenFile (loadFilename type p x k)])
                        \<and> e \<in> {InternalAssertImageData, AssertNotSquare, AssertSizeMismatch}))"
  using assms
proof (induction "6 - i" arbitrary: i s)
  case 0
  then have "i = 6" by simp
  then show ?case
    by (intro exI [of _ 6]) (auto simp: loadFaces_done intro: exI [of _ "snd s"])
next
  case (Suc n)
  then have i: "i < 6" by simp
  show ?case
  proof (cases "faceAccepted env type p x edge i")
    case False
    with i Suc.prems loadFaces_step_abort [OF Suc.prems(1) i False, of texture s]
    show ?thesis
      by (intro exI [of _ i]) auto
  next
    case True
    let ?w' = "setSubImage texture (cubeMapCoordinates ! i)
                 (uploadImage type (the (importImage env (loadFilename type p x i))))
                 (emit [EvOpenFile (loadFilename type p x i)] (snd s))"
    let ?s' = "(fst s, ?w')"
    have tr: "trace ?w' = trace (snd s) @ loadedFaceEvents env type p x texture i"
      by (simp add: loadedFaceEvents_accepted [OF True])
    have step: "loadFaces env type p x texture i edge s
                  = loadFaces env type p x texture (i + 1) edge ?s'"
      by (rule loadFaces_step_ok [OF Suc.prems(1) i True Suc.prems(3)])
    have "n = 6 - (i + 1)" using Suc.hyps(2) by simp
    from Suc.hyps(1) [OF this, of ?s'] i Suc.prems(3)
    obtain k where k: "i + 1 \<le> k" "k \<le> 6"
      "\<forall>j. i + 1 \<le> j \<and> j < k \<longrightarrow> faceAccepted env type p x edge j"
      "k = 6 \<longrightarrow>
         (\<exists>w'. loadFaces env type p x texture (i + 1) edge ?s' = Inr (fst ?s', w')
            \<and> trace w' = trace (snd ?s')
                  @ concat (map (loadedFaceEvents env type p x texture) [i + 1..<6]))"
      "k \<noteq> 6 \<longrightarrow>
         \<not> faceAccepted env type p x edge k
         \<and> (\<exists>e. loadFaces env type p x texture (i + 1) edge ?s' =
                   Inl (e, trace (snd ?s')
                           @ concat (map (loadedFaceEvents env type p x texture) [i + 1..<k])
                           @ [EvOpenFile (loadFilename type p x k)])
                \<and> e \<in> {InternalAssertImageData, AssertNotSquare, AssertSizeMismatch})"
      by auto
    have up: "\<And>m. i < m \<Longrightarrow> [i..<m] = i # [i + 1..<m]"
      by (simp add: upt_conv_Cons)
    have all: "\<forall>j. i \<le> j \<and> j < k \<longrightarrow> faceAccepted env type p x edge j"
      using k(3) True by (metis Suc_eq_plus1 Suc_leI le_neq_implies_less)
    have ik: "i < k" "i \<le> k" using k(1) by simp_all
    show ?thesis
      unfolding step
      using k(2,4,5) all ik i
      by (intro exI [of _ k]) (simp add: tr up del: setSubImage_trace)
  qed
qed

lemma reset_total:
  assumes "S = cm_imageSize (fst s) \<or> 0 < S"
  shows "\<exists>b s' evs. reset S s = Inr (b, s')
           \<and> cm_imageSize (fst s') = S \<and> cm_flags (fst s') = cm_flags (fst s)
           \<and> trace (snd s') = trace (snd s) @ evs
           \<and> (\<forall>e \<in> set evs. storageOfSize (S, S) e)
           \<and> (S = cm_imageSize (fst s) \<longrightarrow> evs = [] \<and> s' = s)
           \<and> (S \<noteq> cm_imageSize (fst s)
                \<and> (ColorTexture \<in> cm_flags (fst s) \<or> DepthTexture \<in> cm_flags (fst s))
                \<longrightarrow> evs \<noteq> [])"
proof (cases "S = cm_imageSize (fst s)")
  case True
  then show ?thesis
    using reset_same [of s S] by auto
next
  case False
  with assms have pos: "0 < S" by simp
  obtain c w where s: "s = (c, w)" by (cases s)
  from reset_changed [of c S w] False pos s obtain fb where
    r: "reset S s = Inr (True, ((fst (recreateFramebuffer (recreateTexture (c\<lparr>cm_imageSize := S\<rparr>, w))))
                                  \<lparr>cm_frameBuffer := fb\<rparr>,
                                snd (recreateTexture (c\<lparr>cm_imageSize := S\<rparr>, w))))"
    (is "_ = Inr (True, ?s')")
    by auto
  have f: "cm_imageSize (fst ?s') = S" "cm_flags (fst ?s') = cm_flags (fst s)"
    by (simp_all add: recreateFramebuffer_fields recreateTexture_fields s)
  from reset_trace [OF r] obtain evs where
    "trace (snd ?s') = trace (snd s) @ evs" "\<forall>e \<in> set evs. storageOfSize (S, S) e"
    "ColorTexture \<in> cm_flags (fst s) \<or> DepthTexture \<in> cm_flags (fst s) \<longrightarrow> evs \<noteq> []"
    by auto
  with r f False show ?thesis
    by (intro exI [of _ True] exI [of _ ?s'] exI [of _ evs]) simp
qed




lemma openAndCheckFace_first_reset:
  assumes "openAndCheckFace env type p x 0 edge s = Inr (img0, T, s1)"
  shows "\<exists>b. reset T (fst s, emit [EvOpenFile (loadFilename type p x 0)] (snd s)) = Inr (b, s1)"
  using assms
  by (auto simp: openAndCheckFace_def Let_def abort_def split: option.splits if_splits sum.splits)

lemma openAndCheckFace_first_same:
  assumes "importImage env (loadFilename type p x 0) = Some img0" "pixelSize img0 = (T, T)"
    and "T = cm_imageSize (fst s)"
  shows "openAndCheckFace env type p x 0 edge s =
           Inr (img0, T, (fst s, emit [EvOpenFile (loadFilename type p x 0)] (snd s)))"
  using assms by (simp add: openAndCheckFace_def Let_def reset_same)

lemma loadFaces_first:
  "loadFaces env type p x texture 0 edge s =
     (case openAndCheckFace env type p x 0 edge s of
        Inl e \<Rightarrow> Inl e
      | Inr (imageData, T, s1) \<Rightarrow>
          (case throughPointer texture
                  (setSubImage texture PositiveX (uploadImage type imageData)) s1 of
             Inl e \<Rightarrow> Inl e
           | Inr s2 \<Rightarrow> loadFaces env type p x texture 1 T s2))"
  by (subst loadFaces.simps)
     (simp add: uploadFace_eq cubeMapCoordinates_def split: sum.splits prod.splits)

lemma loadTexture_unfold:
  assumes "textureTypeSanityCheck (cm_flags (fst s)) type ''CubeMap::loadTexture():'' = Inr ()"
    and "importerAvailable env" and "cm_textures (fst s) type = Some texture"
  shows "loadTexture env type p x s =
           (case loadFaces env type p x texture 0 0 s of
              Inl e \<Rightarrow> Inl e
            | Inr (c, w) \<Rightarrow>
                if BuildMipmap \<in> cm_flags c \<and> ColorTexture \<in> cm_flags c
                then throughPointer texture (generateMipmap texture) (c, w)
                else Inr (c, w))"
  using assms by (cases type) (simp_all add: loadTexture_def)


lemma loadTexture_run:
  assumes chk: "textureTypeSanityCheck (cm_flags (fst s)) type ''CubeMap::loadTexture():'' = Inr ()"
    and imp: "importerAvailable env" and tex: "cm_textures (fst s) type = Some texture"
    and o: "openAndCheckFace env type p x 0 0 s = Inr (img0, T, s1)"
    and lv: "live (fst s1) texture"
  shows "\<exists>k. 1 \<le> k \<and> k \<le> 6
           \<and> (\<forall>j. 1 \<le> j \<and> j < k \<longrightarrow> faceAccepted env type p x T j)
           \<and> (k = 6 \<longrightarrow>
                 (\<exists>w'. loadTexture env type p x s = Inr (fst s1, w')
                    \<and> trace w' =
                          trace (snd s1)
                          @ EvSetSubImage texture PositiveX (uploadImage type img0)
                            # concat (map (loadedFaceEvents env type p x texture) [1..<6])
                          @ (if BuildMipmap \<in> cm_flags (fst s1) \<and> ColorTexture \<in> cm_flags (fst s1)
                             then [EvGenerateMipmap texture] else [])))
           \<and> (k \<noteq> 6 \<longrightarrow>
                 \<not> faceAccepted env type p x T k
                 \<and> (\<exists>e. loadTexture env type p x s =
                           Inl (e, trace (snd s1)
                                   @ EvSetSubImage texture PositiveX (uploadImage type img0)
                                     # concat (map (loadedFaceEvents env type p x texture) [1..<k])
                                   @ [EvOpenFile (loadFilename type p x k)])
                        \<and> e \<in> {InternalAssertImageData, AssertNotSquare, AssertSizeMismatch}))"
proof -
  let ?w2 = "setSubImage texture PositiveX (uploadImage type img0) (snd s1)"
  let ?s2 = "(fst s1, ?w2)"
  have tr2: "trace ?w2 = trace (snd s1) @ [EvSetSubImage texture PositiveX (uploadImage type img0)]"
    by simp
  have lf: "loadFaces env type p x texture 0 0 s = loadFaces env type p x texture 1 T ?s2"
    by (simp add: loadFaces_first o throughPointer_live [OF lv])
  from loadFaces_run [of 1 ?s2 texture env type p x T] lv
  obtain k where k: "1 \<le> k" "k \<le> 6"
    "\<forall>j. 1 \<le> j \<and> j < k \<longrightarrow> faceAccepted env type p x T j"
    and k6: "k = 6 \<longrightarrow>
         (\<exists>w'. loadFaces env type p x texture 1 T ?s2 = Inr (fst s1, w')
            \<and> trace w' = trace ?w2 @ concat (map (loadedFaceEvents env type p x texture) [1..<6]))"
    and kn: "k \<noteq> 6 \<longrightarrow>
         \<not> faceAccepted env type p x T k
         \<and> (\<exists>e. loadFaces env type p x texture 1 T ?s2 =
                   Inl (e, trace ?w2 @ concat (map (loadedFaceEvents env type p x texture) [1..<k])
                           @ [EvOpenFile (loadFilename type p x k)])
                \<and> e \<in> {InternalAssertImageData, AssertNotSquare, AssertSizeMismatch})"
    by (auto simp del: setSubImage_trace)
  have c6: "k = 6 \<longrightarrow>
                 (\<exists>w'. loadTexture env type p x s = Inr (fst s1, w')
                    \<and> trace w' =
                          trace (snd s1)
                          @ EvSetSubImage texture PositiveX (uploadImage type img0)
                            # concat (map (loadedFaceEvents env type p x texture) [1..<6])
                          @ (if BuildMipmap \<in> cm_flags (fst s1) \<and> ColorTexture \<in> cm_flags (fst s1)
                             then [EvGenerateMipmap texture] else []))"
  proof
    assume "k = 6"
    with k6 obtain w' where w': "loadFaces env type p x texture 1 T ?s2 = Inr (fst s1, w')"
      "trace w' = trace ?w2 @ concat (map (loadedFaceEvents env type p x texture) [1..<6])"
      by blast
    have lv': "live (fst (fst s1, w')) texture" using lv by simp
    show "\<exists>w'. loadTexture env type p x s = Inr (fst s1, w')
            \<and> trace w' =
                  trace (snd s1)
                  @ EvSetSubImage texture PositiveX (uploadImage type img0)
                    # concat (map (loadedFaceEvents env type p x texture) [1..<6])
                  @ (if BuildMipmap \<in> cm_flags (fst s1) \<and> ColorTexture \<in> cm_flags (fst s1)
                     then [EvGenerateMipmap texture] else [])"
      unfolding loadTexture_unfold [OF chk imp tex] lf w'(1)
      using w'(2) tr2 by (simp add: throughPointer_live [OF lv'])
  qed
  have cn: "k \<noteq> 6 \<longrightarrow>
                 \<not> faceAccepted env type p x T k
                 \<and> (\<exists>e. loadTexture env type p x s =
                           Inl (e, trace (snd s1)
                                   @ EvSetSubImage texture PositiveX (uploadImage type img0)
                                     # concat (map (loadedFaceEvents env type p x texture) [1..<k])
                                   @ [EvOpenFile (loadFilename type p x k)])
                        \<and> e \<in> {InternalAssertImageData, AssertNotSquare, AssertSizeMismatch})"
  proof
    assume "k \<noteq> 6"
    with kn obtain e where na: "\<not> faceAccepted env type p x T k"
      and e: "loadFaces env type p x texture 1 T ?s2 =
                Inl (e, trace ?w2 @ concat (map (loadedFaceEvents env type p x texture) [1..<k])
                        @ [EvOpenFile (loadFilename type p x k)])"
      and ek: "e \<in> {InternalAssertImageData, AssertNotSquare, AssertSizeMismatch}"
      by blast
    have "loadTexture env type p x s =
            Inl (e, trace (snd s1)
                    @ EvSetSubImage texture PositiveX (uploadImage type img0)
                      # concat (map (loadedFaceEvents env type p x texture) [1..<k])
                    @ [EvOpenFile (loadFilename type p x k)])"
      unfolding loadTexture_unfold [OF chk imp tex] lf e tr2 by simp
    with na ek show "\<not> faceAccepted env type p x T k
                 \<and> (\<exists>e. loadTexture env type p x s =
                           Inl (e, trace (snd s1)
                                   @ EvSetSubImage texture PositiveX (uploadImage type img0)
                                     # concat (map (loadedFaceEvents env type p x texture) [1..<k])
                                   @ [EvOpenFile (loadFilename type p x k)])
                        \<and> e \<in> {InternalAssertImageData, AssertNotSquare, AssertSizeMismatch})"
      by blast
  qed
  from k c6 cn show ?thesis by blast
qed

text \<open>
  A load whose first face has the current size: the reset does nothing, the pointer
  holds, and the faces are uploaded up to the first \<open>k\<close> that is not accepted.
\<close>

lemma loadTexture_same_size:
  assumes chk: "textureTypeSanityCheck (cm_flags (fst s)) type ''CubeMap::loadTexture():'' = Inr ()"
    and imp: "importerAvailable env" and tex: "cm_textures (fst s) type = Some texture"
    and f0: "importImage env (loadFilename type p x 0) = Some img0" "pixelSize img0 = (T, T)"
    and T: "T = cm_imageSize (fst s)"
  shows "\<exists>k. 1 \<le> k \<and> k \<le> 6
           \<and> (\<forall>j. 1 \<le> j \<and> j < k \<longrightarrow> faceAccepted env type p x T j)
           \<and> (k = 6 \<longrightarrow>
                 (\<exists>w'. loadTexture env type p x s = Inr (fst s, w')
                    \<and> trace w' =
                          trace (snd s) @ EvOpenFile (loadFilename type p x 0)
                          # EvSetSubImage texture PositiveX (uploadImage type img0)
                            # concat (map (loadedFaceEvents env type p x texture) [1..<6])
                          @ (if BuildMipmap \<in> cm_flags (fst s) \<and> ColorTexture \<in> cm_flags (fst s)
                             then [EvGenerateMipmap texture] else [])))
           \<and> (k \<noteq> 6 \<longrightarrow>
                 \<not> faceAccepted env type p x T k
                 \<and> (\<exists>e. loadTexture env type p x s =
                           Inl (e, trace (snd s) @ EvOpenFile (loadFilename type p x 0)
                                   # EvSetSubImage texture PositiveX (uploadImage type img0)
                                     # concat (map (loadedFaceEvents env type p x texture) [1..<k])
                                   @ [EvOpenFile (loadFilename type p x k)])
                        \<and> e \<in> {InternalAssertImageData, AssertNotSquare, AssertSizeMismatch}))"
proof -
  let ?s1 = "(fst s, emit [EvOpenFile (loadFilename type p x 0)] (snd s))"
  have o: "openAndCheckFace env type p x 0 0 s = Inr (img0, T, ?s1)"
    by (rule openAndCheckFace_first_same [OF f0 T])
  have lv: "live (fst ?s1) texture" using live_held [OF tex] by simp
  from loadTexture_run [OF chk imp tex o lv] show ?thesis by simp
qed

subsection \<open>The examples\<close>

lemma nextAddr_calls [simp]:
  "nextAddr (setStorage a levels format sz w) = nextAddr w"
  "nextAddr (setSubImage a coord img w) = nextAddr w"
  "nextAddr (generateMipmap a w) = nextAddr w"
  by (simp_all add: setStorage_def setSubImage_def generateMipmap_def)

lemma CubeMap_new_positive:
  assumes "0 < S"
  shows "\<exists>fb. CubeMap_new S F w =
           Inr ((fst (recreateFramebuffer
                       (recreateTexture ((CubeMap_init F)\<lparr>cm_imageSize := S\<rparr>,
                                         w\<lparr>seamlessCubeMapTexture := True\<rparr>))))
                  \<lparr>cm_frameBuffer := fb\<rparr>,
                snd (recreateTexture ((CubeMap_init F)\<lparr>cm_imageSize := S\<rparr>,
                                      w\<lparr>seamlessCubeMapTexture := True\<rparr>)))"
  using reset_changed [of "CubeMap_init F" S "w\<lparr>seamlessCubeMapTexture := True\<rparr>"] assms
  by (auto simp: CubeMap_new_def CubeMap_init_def)


lemma exampleCubeMap_fields:
  "cm_flags (fst exampleCubeMap) = allFlags"
  "cm_imageSize (fst exampleCubeMap) = 4"
  "cm_textures (fst exampleCubeMap) Color = Some 0"
  "cm_textures (fst exampleCubeMap) Depth = Some 1"
  "trace (snd exampleCubeMap) =
     [EvSetStorage 0 3 RGBA8 (4, 4), EvSetStorage 1 1 DepthComponent32F (4, 4)]"
proof -
  have l: "log2 4 = 2" by code_simp
  obtain fb where eq: "exampleCubeMap =
      ((fst (recreateFramebuffer
              (recreateTexture ((CubeMap_init allFlags)\<lparr>cm_imageSize := 4\<rparr>,
                                emptyWorld\<lparr>seamlessCubeMapTexture := True\<rparr>))))
         \<lparr>cm_frameBuffer := fb\<rparr>,
       snd (recreateTexture ((CubeMap_init allFlags)\<lparr>cm_imageSize := 4\<rparr>,
                             emptyWorld\<lparr>seamlessCubeMapTexture := True\<rparr>)))"
    using CubeMap_new_positive [of 4 allFlags emptyWorld]
    by (auto simp: exampleCubeMap_def constructed_def)
  show "cm_flags (fst exampleCubeMap) = allFlags"
    "cm_imageSize (fst exampleCubeMap) = 4"
    "cm_textures (fst exampleCubeMap) Color = Some 0"
    "cm_textures (fst exampleCubeMap) Depth = Some 1"
    "trace (snd exampleCubeMap) =
       [EvSetStorage 0 3 RGBA8 (4, 4), EvSetStorage 1 1 DepthComponent32F (4, 4)]"
    unfolding eq
    by (simp_all add: recreateFramebuffer_fields recreateTexture_def recreateColorTexture_def
        recreateDepthTexture_def makeUniqueTexture_def CubeMap_init_def allFlags_def
        emptyWorld_def Let_def l)
qed

lemma colorCubeMap_fields:
  "cm_flags (fst colorCubeMap) = {ColorTexture}"
  "cm_imageSize (fst colorCubeMap) = 4"
  "cm_textures (fst colorCubeMap) Color = Some 0"
  "cm_textures (fst colorCubeMap) Depth = None"
  "trace (snd colorCubeMap) = [EvSetStorage 0 1 RGBA8 (4, 4)]"
proof -
  obtain fb where eq: "colorCubeMap =
      ((fst (recreateFramebuffer
              (recreateTexture ((CubeMap_init {ColorTexture})\<lparr>cm_imageSize := 4\<rparr>,
                                emptyWorld\<lparr>seamlessCubeMapTexture := True\<rparr>))))
         \<lparr>cm_frameBuffer := fb\<rparr>,
       snd (recreateTexture ((CubeMap_init {ColorTexture})\<lparr>cm_imageSize := 4\<rparr>,
                             emptyWorld\<lparr>seamlessCubeMapTexture := True\<rparr>)))"
    using CubeMap_new_positive [of 4 "{ColorTexture}" emptyWorld]
    by (auto simp: colorCubeMap_def constructed_def)
  show "cm_flags (fst colorCubeMap) = {ColorTexture}"
    "cm_imageSize (fst colorCubeMap) = 4"
    "cm_textures (fst colorCubeMap) Color = Some 0"
    "cm_textures (fst colorCubeMap) Depth = None"
    "trace (snd colorCubeMap) = [EvSetStorage 0 1 RGBA8 (4, 4)]"
    unfolding eq
    by (simp_all add: recreateFramebuffer_fields recreateTexture_def recreateColorTexture_def
        recreateDepthTexture_def makeUniqueTexture_def CubeMap_init_def
        emptyWorld_def Let_def)
qed

subsection \<open>Reset to the current size\<close>

text \<open>
  C2. A reset to the current size returns false and leaves the cube map and the store as
  they are: flags, size, textures, framebuffer and depth buffer. A reset to a different,
  positive size returns true and leaves that size.
\<close>

theorem reset_same_size_noop:
  "(cm_imageSize (fst s) = S \<longrightarrow> reset S s = Inr (False, s))
   \<and> (cm_imageSize (fst s) \<noteq> S' \<and> 0 < S'
        \<longrightarrow> (\<exists>s'. reset S' s = Inr (True, s') \<and> cm_imageSize (fst s') = S'))"
proof (intro conjI impI)
  assume "cm_imageSize (fst s) = S"
  then show "reset S s = Inr (False, s)" by (rule reset_same)
next
  assume h: "cm_imageSize (fst s) \<noteq> S' \<and> 0 < S'"
  from reset_total [of S' s] h obtain b s' where
    r: "reset S' s = Inr (b, s')" and sz: "cm_imageSize (fst s') = S'"
    by blast
  from reset_changed [of "fst s" S' "snd s"] h r have "b = True" by auto
  with r sz show "\<exists>s'. reset S' s = Inr (True, s') \<and> cm_imageSize (fst s') = S'"
    by auto
qed

theorem reset_same_size_noop_witness:
  "cm_imageSize (fst colorCubeMap) = 4
   \<and> cm_textures (fst colorCubeMap) Color = Some 0
   \<and> trace (snd colorCubeMap) = [EvSetStorage 0 1 RGBA8 (4, 4)]
   \<and> reset 4 colorCubeMap = Inr (False, colorCubeMap)
   \<and> (\<exists>s'. reset 8 colorCubeMap = Inr (True, s') \<and> cm_imageSize (fst s') = 8)"
  using reset_same_size_noop [of colorCubeMap 4 8]
  by (simp add: colorCubeMap_fields)

subsection \<open>File names and face order\<close>

lemma upt_6: "[0..<6] = [0, 1, 2, 3, 4, 5]"
  by code_simp

lemma upt_1_6: "[1..<6] = [1, 2, 3, 4, 5]"
  by code_simp

lemma textureTypeSanityCheck_iff:
  "textureTypeSanityCheck flags type f = Inr () \<longleftrightarrow> capabilityOf type \<in> flags"
  by (cases type) (simp_all add: textureTypeSanityCheck_def capabilityOf_def)

lemma save_names:
  "map (saveFilename type p) [0..<6] = specFileNames p (specTypeTag type) (specSaveExtension type)"
  by (cases type)
     (simp_all add: upt_6 saveFilename_def specFileNames_def specFaceTags_def specTypeTag_def
        specSaveExtension_def getTextureTypeFilenameString_def coordStrings_def)

lemma load_names:
  "map (loadFilename type p x) [0..<6] = specFileNames p (specTypeTag type) x"
  by (cases type)
     (simp_all add: upt_6 loadFilename_def specFileNames_def specFaceTags_def specTypeTag_def
        getTextureTypeFilenameString_def coordStrings_def)

lemma face_coordinates: "map (\<lambda>j. (a, cubeMapCoordinates ! j)) [0..<6] = map (Pair a) cubeMapCoordinates"
  by (simp add: upt_6 cubeMapCoordinates_def)

lemma saved_projections:
  "exportedFiles (concat (map (savedFaceEvents a type p) js)) = map (saveFilename type p) js"
  "attemptedExports (concat (map (savedFaceEvents a type p) js)) = map (saveFilename type p) js"
  "readFaces (concat (map (savedFaceEvents a type p) js)) = map (\<lambda>j. (a, cubeMapCoordinates ! j)) js"
  by (induction js) (simp_all add: exportedFiles_def attemptedExports_def readFaces_def
      savedFaceEvents_def)

lemma failed_projections:
  "exportedFiles (failedFaceEvents a type p k) = []"
  "attemptedExports (failedFaceEvents a type p k) = [saveFilename type p k]"
  by (simp_all add: exportedFiles_def attemptedExports_def failedFaceEvents_def)

lemma projections_append:
  "exportedFiles (xs @ ys) = exportedFiles xs @ exportedFiles ys"
  "attemptedExports (xs @ ys) = attemptedExports xs @ attemptedExports ys"
  "readFaces (xs @ ys) = readFaces xs @ readFaces ys"
  "openedFiles (xs @ ys) = openedFiles xs @ openedFiles ys"
  "uploadedFaces (xs @ ys) = uploadedFaces xs @ uploadedFaces ys"
  "mipmapTargets (xs @ ys) = mipmapTargets xs @ mipmapTargets ys"
  by (simp_all add: exportedFiles_def attemptedExports_def readFaces_def openedFiles_def
      uploadedFaces_def mipmapTargets_def)

lemma storage_projections:
  assumes "\<forall>e \<in> set evs. storageOfSize sz e"
  shows "openedFiles evs = [] \<and> uploadedFaces evs = [] \<and> mipmapTargets evs = []"
  using assms
proof (induction evs)
  case Nil
  show ?case by (simp add: openedFiles_def uploadedFaces_def mipmapTargets_def)
next
  case (Cons e evs)
  then have "storageOfSize sz e" by simp
  then obtain a l f where "e = EvSetStorage a l f sz"
    by (cases e) (simp_all add: storageOfSize_def)
  with Cons show ?case
    by (simp add: openedFiles_def uploadedFaces_def mipmapTargets_def)
qed

lemma loaded_projections:
  assumes "\<forall>j \<in> set js. faceAccepted env type p x T j"
  shows "openedFiles (concat (map (loadedFaceEvents env type p x texture) js))
           = map (loadFilename type p x) js
         \<and> uploadedFaces (concat (map (loadedFaceEvents env type p x texture) js))
           = map (\<lambda>j. (texture, cubeMapCoordinates ! j)) js
         \<and> mipmapTargets (concat (map (loadedFaceEvents env type p x texture) js)) = []"
  using assms
proof (induction js)
  case Nil
  show ?case by (simp add: openedFiles_def uploadedFaces_def mipmapTargets_def)
next
  case (Cons j js)
  then have "faceAccepted env type p x T j" by simp
  from loadedFaceEvents_accepted [OF this, of texture] Cons show ?case
    by (simp add: projections_append) (simp add: openedFiles_def uploadedFaces_def mipmapTargets_def)
qed

lemma saveTexture_run:
  assumes "capabilityOf type \<in> cm_flags (fst s)" "converterAvailable env"
    "cm_textures (fst s) type = Some a"
  shows "\<exists>k. k \<le> 6
           \<and> (\<forall>j. j < k \<longrightarrow> exportSucceeds env (snd s) a type p j)
           \<and> (k = 6 \<longrightarrow>
                  saveTexture env type p s =
                    Inr (True, (fst s, emit (concat (map (savedFaceEvents a type p) [0..<6]))
                                         (snd s))))
           \<and> (k \<noteq> 6 \<longrightarrow>
                  \<not> exportSucceeds env (snd s) a type p k
                  \<and> saveTexture env type p s =
                      Inr (False, (fst s, emit (concat (map (savedFaceEvents a type p) [0..<k])
                                                @ failedFaceEvents a type p k) (snd s))))"
proof -
  have "saveTexture env type p s = saveFaces env type p 0 s"
    using assms(1,2) by (simp add: saveTexture_def textureTypeSanityCheck_iff [THEN iffD2])
  with saveFaces_run [OF assms(3), of 0 env p] show ?thesis by simp
qed

lemma projections_Cons:
  "openedFiles [] = []" "uploadedFaces [] = []" "mipmapTargets [] = []"
  "openedFiles (EvOpenFile f # es) = f # openedFiles es"
  "openedFiles (EvSetSubImage a c i # es) = openedFiles es"
  "openedFiles (EvGenerateMipmap a # es) = openedFiles es"
  "uploadedFaces (EvOpenFile f # es) = uploadedFaces es"
  "uploadedFaces (EvSetSubImage a c i # es) = (a, c) # uploadedFaces es"
  "uploadedFaces (EvGenerateMipmap a # es) = uploadedFaces es"
  "mipmapTargets (EvOpenFile f # es) = mipmapTargets es"
  "mipmapTargets (EvSetSubImage a c i # es) = mipmapTargets es"
  "mipmapTargets (EvGenerateMipmap a # es) = a # mipmapTargets es"
  by (simp_all add: openedFiles_def uploadedFaces_def mipmapTargets_def)

text \<open>The files opened, the faces uploaded and the mip chains generated by a whole load.\<close>

lemma load_projections:
  assumes "\<forall>e \<in> set evs. storageOfSize sz e"
    and "\<forall>j \<in> set js. faceAccepted env type p x T j"
  shows "openedFiles (EvOpenFile f # evs @ EvSetSubImage texture c img
                       # concat (map (loadedFaceEvents env type p x texture) js) @ rest)
           = f # map (loadFilename type p x) js @ openedFiles rest"
    and "uploadedFaces (EvOpenFile f # evs @ EvSetSubImage texture c img
                       # concat (map (loadedFaceEvents env type p x texture) js) @ rest)
           = (texture, c) # map (\<lambda>j. (texture, cubeMapCoordinates ! j)) js @ uploadedFaces rest"
    and "mipmapTargets (EvOpenFile f # evs @ EvSetSubImage texture c img
                       # concat (map (loadedFaceEvents env type p x texture) js) @ rest)
           = mipmapTargets rest"
  using storage_projections [OF assms(1)] loaded_projections [OF assms(2), of texture]
  by (simp_all add: projections_Cons projections_append)

text \<open>
  C4. A save with the capability, the converter plugin and six successful exports returns
  true after reading the faces in the order +X, -X, +Y, -Y, +Z, -Z and exporting exactly
  the six files \<^verbatim>\<open>{prefix}.{typeTag}.{faceTag}.{ext}\<close> in that order, with \<^verbatim>\<open>rgba\<close> and
  \<^verbatim>\<open>png\<close> for color, \<^verbatim>\<open>depth\<close> and \<^verbatim>\<open>hdr\<close> for depth. A load whose six files hold
  square images of the current size opens exactly the six files named the same way with
  the caller's extension, and uploads the faces in the same order. (A load whose first
  image has another size resets the cube map; C6 follows it.)
\<close>

theorem save_load_file_names:
  "(capabilityOf type \<in> cm_flags (fst s) \<and> converterAvailable env
      \<and> cm_textures (fst s) type = Some a
      \<and> (\<forall>j. j < 6 \<longrightarrow> exportSucceeds env (snd s) a type p j)
    \<longrightarrow> (\<exists>evs. saveTexture env type p s = Inr (True, (fst s, emit evs (snd s)))
           \<and> exportedFiles evs = specFileNames p (specTypeTag type) (specSaveExtension type)
           \<and> attemptedExports evs = specFileNames p (specTypeTag type) (specSaveExtension type)
           \<and> readFaces evs = map (Pair a) cubeMapCoordinates))
   \<and> (capabilityOf type \<in> cm_flags (fst s) \<and> importerAvailable env
        \<and> cm_textures (fst s) type = Some texture
        \<and> (\<forall>j. j < 6 \<longrightarrow> faceAccepted env type p x (cm_imageSize (fst s)) j)
      \<longrightarrow> (\<exists>s' evs. loadTexture env type p x s = Inr s'
             \<and> trace (snd s') = trace (snd s) @ evs
             \<and> openedFiles evs = specFileNames p (specTypeTag type) x
             \<and> uploadedFaces evs = map (Pair texture) cubeMapCoordinates))"
proof (intro conjI impI)
  assume h: "capabilityOf type \<in> cm_flags (fst s) \<and> converterAvailable env
      \<and> cm_textures (fst s) type = Some a
      \<and> (\<forall>j. j < 6 \<longrightarrow> exportSucceeds env (snd s) a type p j)"
  from saveTexture_run [of type s env a p] h obtain k where k: "k \<le> 6"
    "k = 6 \<longrightarrow> saveTexture env type p s =
        Inr (True, (fst s, emit (concat (map (savedFaceEvents a type p) [0..<6])) (snd s)))"
    "k \<noteq> 6 \<longrightarrow> \<not> exportSucceeds env (snd s) a type p k"
    by blast
  with h have "k = 6" by (cases "k = 6") auto
  with k(2) show "\<exists>evs. saveTexture env type p s = Inr (True, (fst s, emit evs (snd s)))
           \<and> exportedFiles evs = specFileNames p (specTypeTag type) (specSaveExtension type)
           \<and> attemptedExports evs = specFileNames p (specTypeTag type) (specSaveExtension type)
           \<and> readFaces evs = map (Pair a) cubeMapCoordinates"
    by (intro exI [of _ "concat (map (savedFaceEvents a type p) [0..<6])"])
       (simp add: saved_projections save_names face_coordinates)
next
  let ?T = "cm_imageSize (fst s)"
  assume h: "capabilityOf type \<in> cm_flags (fst s) \<and> importerAvailable env
        \<and> cm_textures (fst s) type = Some texture
        \<and> (\<forall>j. j < 6 \<longrightarrow> faceAccepted env type p x (cm_imageSize (fst s)) j)"
  then have chk: "textureTypeSanityCheck (cm_flags (fst s)) type ''CubeMap::loadTexture():'' = Inr ()"
    and imp: "importerAvailable env" and tex: "cm_textures (fst s) type = Some texture"
    by (simp_all add: textureTypeSanityCheck_iff)
  from h have "faceAccepted env type p x ?T 0" by simp
  then obtain img0 where f0: "importImage env (loadFilename type p x 0) = Some img0"
    "pixelSize img0 = (?T, ?T)"
    by (auto simp: faceAccepted_def split: option.splits)
  from loadTexture_same_size [OF chk imp tex f0 refl]
  obtain k where k: "1 \<le> k" "k \<le> 6"
    and k6: "k = 6 \<longrightarrow>
          (\<exists>w'. loadTexture env type p x s = Inr (fst s, w')
             \<and> trace w' =
                   trace (snd s) @ EvOpenFile (loadFilename type p x 0)
                   # EvSetSubImage texture PositiveX (uploadImage type img0)
                     # concat (map (loadedFaceEvents env type p x texture) [1..<6])
                   @ (if BuildMipmap \<in> cm_flags (fst s) \<and> ColorTexture \<in> cm_flags (fst s)
                      then [EvGenerateMipmap texture] else []))"
    and kn: "k \<noteq> 6 \<longrightarrow> \<not> faceAccepted env type p x ?T k"
    by blast
  from kn h k have "k = 6" by (cases "k = 6") auto
  with k6 obtain w' where r: "loadTexture env type p x s = Inr (fst s, w')"
    and tr: "trace w' =
               trace (snd s) @ EvOpenFile (loadFilename type p x 0)
               # EvSetSubImage texture PositiveX (uploadImage type img0)
                 # concat (map (loadedFaceEvents env type p x texture) [1..<6])
               @ (if BuildMipmap \<in> cm_flags (fst s) \<and> ColorTexture \<in> cm_flags (fst s)
                  then [EvGenerateMipmap texture] else [])"
    by blast
  have acc: "\<forall>j \<in> set [1..<6]. faceAccepted env type p x ?T j" using h by simp
  have none: "\<forall>e \<in> set ([] :: Event list). storageOfSize (?T, ?T) e" by simp
  have split: "[0..<6] = 0 # [1..<6]" unfolding upt_6 upt_1_6 by (rule refl)
  define rest where
    "rest = (if BuildMipmap \<in> cm_flags (fst s) \<and> ColorTexture \<in> cm_flags (fst s)
             then [EvGenerateMipmap texture] else [])"
  define E where
    "E = EvOpenFile (loadFilename type p x 0) # []
           @ EvSetSubImage texture PositiveX (uploadImage type img0)
             # concat (map (loadedFaceEvents env type p x texture) [1..<6]) @ rest"
  have rest: "openedFiles rest = []" "uploadedFaces rest = []"
    by (simp_all add: rest_def projections_Cons)
  have tr': "trace w' = trace (snd s) @ E"
    unfolding E_def rest_def using tr by simp
  have "openedFiles E = loadFilename type p x 0 # map (loadFilename type p x) [1..<6]
                          @ openedFiles rest"
    unfolding E_def by (rule load_projections(1) [OF none acc])
  also have "\<dots> = map (loadFilename type p x) [0..<6]"
    unfolding split rest by simp
  finally have o: "openedFiles E = specFileNames p (specTypeTag type) x"
    by (simp only: load_names)
  have "uploadedFaces E = (texture, PositiveX) # map (\<lambda>j. (texture, cubeMapCoordinates ! j)) [1..<6]
                            @ uploadedFaces rest"
    unfolding E_def by (rule load_projections(2) [OF none acc])
  also have "\<dots> = map (\<lambda>j. (texture, cubeMapCoordinates ! j)) [0..<6]"
    unfolding split rest by (simp add: cubeMapCoordinates_def)
  finally have u: "uploadedFaces E = map (Pair texture) cubeMapCoordinates"
    by (simp only: face_coordinates)
  from r tr' o u
  show "\<exists>s' evs. loadTexture env type p x s = Inr s'
             \<and> trace (snd s') = trace (snd s) @ evs
             \<and> openedFiles evs = specFileNames p (specTypeTag type) x
             \<and> uploadedFaces evs = map (Pair texture) cubeMapCoordinates"
    by (intro exI [of _ "(fst s, w')"] exI [of _ E]) simp
qed

theorem save_load_file_names_witness:
  "(\<exists>evs. saveTexture exampleEnv Color ''cube'' exampleCubeMap
             = Inr (True, (fst exampleCubeMap, emit evs (snd exampleCubeMap)))
       \<and> exportedFiles evs =
             [''cube.rgba.+X.png'', ''cube.rgba.-X.png'', ''cube.rgba.+Y.png'',
              ''cube.rgba.-Y.png'', ''cube.rgba.+Z.png'', ''cube.rgba.-Z.png''])
   \<and> (\<exists>s' evs. loadTexture exampleEnv Color ''cube'' ''jpg'' exampleCubeMap = Inr s'
       \<and> trace (snd s') = trace (snd exampleCubeMap) @ evs
       \<and> openedFiles evs =
             [''cube.rgba.+X.jpg'', ''cube.rgba.-X.jpg'', ''cube.rgba.+Y.jpg'',
              ''cube.rgba.-Y.jpg'', ''cube.rgba.+Z.jpg'', ''cube.rgba.-Z.jpg'']
       \<and> uploadedFaces evs =
             [(0, PositiveX), (0, NegativeX), (0, PositiveY), (0, NegativeY),
              (0, PositiveZ), (0, NegativeZ)])"
  using save_load_file_names [of Color exampleCubeMap exampleEnv 0 "''cube''" 0 "''jpg''"]
  by (simp add: exampleCubeMap_fields capabilityOf_def allFlags_def exampleEnv_def
      exportSucceeds_def faceAccepted_def exampleImage_def specFileNames_def specFaceTags_def
      specTypeTag_def specSaveExtension_def cubeMapCoordinates_def) blast

subsection \<open>Missing plugins and failed exports\<close>

text \<open>
  C5, as the code has it. Without the converter plugin \<^verbatim>\<open>saveTexture\<close> returns false and
  changes nothing. Without the importer plugin \<^verbatim>\<open>loadTexture\<close> does not return: its
  internal assertion aborts, before anything is logged, opened or uploaded. When the
  export of a face fails, \<^verbatim>\<open>saveTexture\<close> returns false at the first such face, and the
  files of the faces before it have been exported.
\<close>

theorem plugin_and_export_failure:
  "(capabilityOf type \<in> cm_flags (fst s) \<and> \<not> converterAvailable env
      \<longrightarrow> saveTexture env type p s = Inr (False, s))
   \<and> (capabilityOf type \<in> cm_flags (fst s) \<and> \<not> importerAvailable env
      \<longrightarrow> loadTexture env type p x s = Inl (InternalAssertImporter, trace (snd s)))
   \<and> (capabilityOf type \<in> cm_flags (fst s) \<and> converterAvailable env
        \<and> cm_textures (fst s) type = Some a
        \<and> k < 6 \<and> \<not> exportSucceeds env (snd s) a type p k
      \<longrightarrow> (\<exists>n evs. n \<le> k
             \<and> saveTexture env type p s = Inr (False, (fst s, emit evs (snd s)))
             \<and> exportedFiles evs = map (saveFilename type p) [0..<n]
             \<and> attemptedExports evs = map (saveFilename type p) [0..<Suc n]))"
proof (intro conjI impI)
  assume "capabilityOf type \<in> cm_flags (fst s) \<and> \<not> converterAvailable env"
  then show "saveTexture env type p s = Inr (False, s)"
    by (simp add: saveTexture_def textureTypeSanityCheck_iff [THEN iffD2])
next
  assume "capabilityOf type \<in> cm_flags (fst s) \<and> \<not> importerAvailable env"
  then show "loadTexture env type p x s = Inl (InternalAssertImporter, trace (snd s))"
    by (simp add: loadTexture_def textureTypeSanityCheck_iff [THEN iffD2] abort_def)
next
  assume h: "capabilityOf type \<in> cm_flags (fst s) \<and> converterAvailable env
        \<and> cm_textures (fst s) type = Some a
        \<and> k < 6 \<and> \<not> exportSucceeds env (snd s) a type p k"
  from saveTexture_run [of type s env a p] h obtain n where n: "n \<le> 6"
    "\<forall>j. j < n \<longrightarrow> exportSucceeds env (snd s) a type p j"
    "n \<noteq> 6 \<longrightarrow>
       saveTexture env type p s =
         Inr (False, (fst s, emit (concat (map (savedFaceEvents a type p) [0..<n])
                                   @ failedFaceEvents a type p n) (snd s)))"
    by blast
  from n(2) h have nk: "n \<le> k" by (meson not_le)
  with h have "n \<noteq> 6" by simp
  with n(3) nk show "\<exists>n evs. n \<le> k
             \<and> saveTexture env type p s = Inr (False, (fst s, emit evs (snd s)))
             \<and> exportedFiles evs = map (saveFilename type p) [0..<n]
             \<and> attemptedExports evs = map (saveFilename type p) [0..<Suc n]"
    by (intro exI [of _ n]
          exI [of _ "concat (map (savedFaceEvents a type p) [0..<n]) @ failedFaceEvents a type p n"])
       (simp add: projections_append saved_projections failed_projections)
qed

theorem plugin_and_export_failure_witness:
  "saveTexture (exampleEnv\<lparr>converterAvailable := False\<rparr>) Color ''cube'' exampleCubeMap
     = Inr (False, exampleCubeMap)
   \<and> loadTexture (exampleEnv\<lparr>importerAvailable := False\<rparr>) Color ''cube'' ''png'' exampleCubeMap
     = Inl (InternalAssertImporter, trace (snd exampleCubeMap))
   \<and> (\<exists>n evs. n \<le> 2
        \<and> saveTexture (exampleEnv\<lparr>exportToFile := (\<lambda>img f. f \<noteq> ''cube.rgba.+Y.png'')\<rparr>)
              Color ''cube'' exampleCubeMap
            = Inr (False, (fst exampleCubeMap, emit evs (snd exampleCubeMap)))
        \<and> exportedFiles evs = map (saveFilename Color ''cube'') [0..<n])"
  using
    plugin_and_export_failure [of Color exampleCubeMap "exampleEnv\<lparr>converterAvailable := False\<rparr>"
      "''cube''" _ 0 0]
    plugin_and_export_failure [of Color exampleCubeMap "exampleEnv\<lparr>importerAvailable := False\<rparr>"
      "''cube''" "''png''" 0 0]
    plugin_and_export_failure [of Color exampleCubeMap
      "exampleEnv\<lparr>exportToFile := (\<lambda>img f. f \<noteq> ''cube.rgba.+Y.png'')\<rparr>" "''cube''" _ 0 2]
  by (simp add: exampleCubeMap_fields capabilityOf_def allFlags_def exampleEnv_def
      exportSucceeds_def saveFilename_def getTextureTypeFilenameString_def coordStrings_def)
     blast

text \<open>
  C5, the counterexample: on the example cube map, a load without the importer plugin
  aborts on the internal assertion; the trace is the one at entry.
\<close>

theorem loadTexture_importer_abort:
  "loadTexture (exampleEnv\<lparr>importerAvailable := False\<rparr>) Color ''cube'' ''png'' exampleCubeMap
     = Inl (InternalAssertImporter,
            [EvSetStorage 0 3 RGBA8 (4, 4), EvSetStorage 1 1 DepthComponent32F (4, 4)])"
  by (simp add: loadTexture_def textureTypeSanityCheck_def exampleCubeMap_fields allFlags_def
      exampleEnv_def abort_def)

subsection \<open>Capability gating\<close>

lemma openAndCheckFace_error:
  assumes "openAndCheckFace env type p x iFace edge s = Inl (e, tr)"
  shows "e \<in> {InternalAssertImageData, AssertNotSquare, AssertSizeMismatch}
         \<or> (\<exists>n. e = AssertImageSize n)"
  using assms
  by (auto simp: openAndCheckFace_def Let_def abort_def
      split: option.splits if_splits sum.splits dest: reset_error)

lemma loadFaces_error:
  assumes "loadFaces env type p x texture i edge s = Inl (e, tr)"
  shows "e \<in> {InternalAssertImageData, AssertNotSquare, AssertSizeMismatch, UseAfterFree texture}
         \<or> (\<exists>n. e = AssertImageSize n)"
  using assms
proof (induction "6 - i" arbitrary: i edge s)
  case 0
  then show ?case by (simp add: loadFaces_done)
next
  case (Suc n)
  then have i: "i < 6" by simp
  show ?case
  proof (cases "openAndCheckFace env type p x i edge s")
    case (Inl a)
    with Suc.prems i have "openAndCheckFace env type p x i edge s = Inl (e, tr)"
      by (subst (asm) loadFaces.simps) simp
    from openAndCheckFace_error [OF this] show ?thesis by auto
  next
    case (Inr b)
    then obtain img edge' s1 where b: "openAndCheckFace env type p x i edge s = Inr (img, edge', s1)"
      by (cases b) auto
    show ?thesis
    proof (cases "live (fst s1) texture")
      case False
      have "e = UseAfterFree texture"
        using Suc.prems i b uploadFace_dangling [OF i False, of type img]
        by (subst (asm) loadFaces.simps) simp
      then show ?thesis by simp
    next
      case True
      have "n = 6 - (i + 1)" using Suc.hyps(2) by simp
      moreover have "loadFaces env type p x texture (i + 1) edge'
               (fst s1, setSubImage texture (cubeMapCoordinates ! i) (uploadImage type img) (snd s1))
             = Inl (e, tr)"
        using Suc.prems i b uploadFace_ok [OF i True, of type img]
        by (subst (asm) loadFaces.simps) simp
      ultimately show ?thesis by (rule Suc.hyps(1))
    qed
  qed
qed


lemma saveFaces_error:
  assumes "saveFaces env type p 0 s = Inl (e, tr)"
  shows "e = NullDereference"
proof (cases "cm_textures (fst s) type")
  case None
  with assms show ?thesis by (simp add: saveFaces_null)
next
  case (Some a)
  from saveFaces_run [OF Some, of 0 env p] assms show ?thesis by auto
qed

text \<open>
  C8. Without the capability of the texture type, \<^verbatim>\<open>getTexture\<close>, \<^verbatim>\<open>saveTexture\<close> and
  \<^verbatim>\<open>loadTexture\<close> fail the assertion of the check, each under its own name. With the
  capability the check passes, and none of the three calls fails that assertion.
\<close>

theorem capability_gating:
  "(capabilityOf type \<notin> cm_flags (fst s) \<longrightarrow>
      getTexture type s
        = Inl (AssertTextureNotEnabled ''CubeMap::getTexture():'' type, trace (snd s))
      \<and> saveTexture env type p s
        = Inl (AssertTextureNotEnabled ''CubeMap::saveTexture():'' type, trace (snd s))
      \<and> loadTexture env type p x s
        = Inl (AssertTextureNotEnabled ''CubeMap::loadTexture():'' type, trace (snd s)))
   \<and> (capabilityOf type \<in> cm_flags (fst s) \<longrightarrow>
        textureTypeSanityCheck (cm_flags (fst s)) type f = Inr ()
        \<and> \<not> capabilityFailure (getTexture type s)
        \<and> \<not> capabilityFailure (saveTexture env type p s)
        \<and> \<not> capabilityFailure (loadTexture env type p x s))"
proof (intro conjI impI)
  assume "capabilityOf type \<notin> cm_flags (fst s)"
  then have "\<And>f. textureTypeSanityCheck (cm_flags (fst s)) type f
                  = Inl (AssertTextureNotEnabled f type)"
    by (cases type) (simp_all add: textureTypeSanityCheck_def capabilityOf_def)
  then show "getTexture type s
        = Inl (AssertTextureNotEnabled ''CubeMap::getTexture():'' type, trace (snd s))"
    and "saveTexture env type p s
        = Inl (AssertTextureNotEnabled ''CubeMap::saveTexture():'' type, trace (snd s))"
    and "loadTexture env type p x s
        = Inl (AssertTextureNotEnabled ''CubeMap::loadTexture():'' type, trace (snd s))"
    by (simp_all add: getTexture_def saveTexture_def loadTexture_def abort_def)
next
  assume cap: "capabilityOf type \<in> cm_flags (fst s)"
  then show chk: "textureTypeSanityCheck (cm_flags (fst s)) type f = Inr ()"
    by (simp add: textureTypeSanityCheck_iff)
  have chk': "\<And>f. textureTypeSanityCheck (cm_flags (fst s)) type f = Inr ()"
    using cap by (simp add: textureTypeSanityCheck_iff)
  show "\<not> capabilityFailure (getTexture type s)"
    by (simp add: getTexture_def chk' capabilityFailure_def abort_def split: option.splits)
  show "\<not> capabilityFailure (saveTexture env type p s)"
  proof (cases "saveTexture env type p s")
    case (Inl a)
    obtain e tr where a: "a = (e, tr)" by (cases a)
    with Inl have "saveFaces env type p 0 s = Inl (e, tr)"
      by (simp add: saveTexture_def chk' split: if_splits)
    from saveFaces_error [OF this] Inl a show ?thesis by (simp add: capabilityFailure_def)
  next
    case (Inr b)
    then show ?thesis by (simp add: capabilityFailure_def)
  qed
  show "\<not> capabilityFailure (loadTexture env type p x s)"
  proof (cases "loadTexture env type p x s")
    case (Inl a)
    obtain e tr where a: "a = (e, tr)" by (cases a)
    have "e \<in> {InternalAssertImporter, AssertUnknownTextureType, InternalAssertImageData,
                AssertNotSquare, AssertSizeMismatch}
          \<or> (\<exists>n. e = AssertImageSize n) \<or> (\<exists>t. e = UseAfterFree t)"
    proof (cases "importerAvailable env")
      case False
      with Inl a show ?thesis by (simp add: loadTexture_def chk' abort_def)
    next
      case True
      show ?thesis
      proof (cases "cm_textures (fst s) type")
        case None
        with True Inl a chk' [of "''CubeMap::loadTexture():''"] show ?thesis
          by (cases type) (simp_all add: loadTexture_def abort_def)
      next
        case (Some texture)
        show ?thesis
        proof (cases "loadFaces env type p x texture 0 0 s")
          case lf: (Inl b)
          with Inl a have "loadFaces env type p x texture 0 0 s = Inl (e, tr)"
            unfolding loadTexture_unfold [OF chk' True Some] by simp
          from loadFaces_error [OF this] show ?thesis by auto
        next
          case lf: (Inr s1)
          with Inl a have "e = UseAfterFree texture"
            unfolding loadTexture_unfold [OF chk' True Some]
            by (auto simp: throughPointer_def abort_def split: prod.splits if_splits)
          then show ?thesis by simp
        qed
      qed
    qed
    with Inl a show ?thesis by (auto simp: capabilityFailure_def)
  next
    case (Inr b)
    then show ?thesis by (simp add: capabilityFailure_def)
  qed
qed

theorem capability_gating_witness:
  "getTexture Depth colorCubeMap
     = Inl (AssertTextureNotEnabled ''CubeMap::getTexture():'' Depth, [EvSetStorage 0 1 RGBA8 (4, 4)])
   \<and> saveTexture exampleEnv Depth ''cube'' colorCubeMap
     = Inl (AssertTextureNotEnabled ''CubeMap::saveTexture():'' Depth, [EvSetStorage 0 1 RGBA8 (4, 4)])
   \<and> loadTexture exampleEnv Depth ''cube'' ''hdr'' colorCubeMap
     = Inl (AssertTextureNotEnabled ''CubeMap::loadTexture():'' Depth, [EvSetStorage 0 1 RGBA8 (4, 4)])
   \<and> \<not> capabilityFailure (getTexture Color colorCubeMap)
   \<and> \<not> capabilityFailure (saveTexture exampleEnv Color ''cube'' colorCubeMap)
   \<and> \<not> capabilityFailure (loadTexture exampleEnv Color ''cube'' ''png'' colorCubeMap)"
  using capability_gating [of Depth colorCubeMap exampleEnv "''cube''" "''hdr''" "''f''"]
    capability_gating [of Color colorCubeMap exampleEnv "''cube''" "''png''" "''f''"]
  by (simp add: colorCubeMap_fields capabilityOf_def)

subsection \<open>Faces that a load rejects\<close>





subsection \<open>The mip chain after a load\<close>

text \<open>
  The mip chain that a load regenerates is the one behind the pointer \<^verbatim>\<open>texture\<close>: the
  texture that the cube map holds for the loaded type.
\<close>

lemma loadTexture_mipmap_target:
  assumes cap: "capabilityOf type \<in> cm_flags (fst s)"
    and imp: "importerAvailable env" and tex: "cm_textures (fst s) type = Some texture"
    and acc: "\<forall>j. j < 6 \<longrightarrow> faceAccepted env type p x (cm_imageSize (fst s)) j"
    and fl: "BuildMipmap \<in> cm_flags (fst s)" "ColorTexture \<in> cm_flags (fst s)"
  shows "\<exists>s' evs. loadTexture env type p x s = Inr s'
           \<and> trace (snd s') = trace (snd s) @ evs \<and> mipmapTargets evs = [texture]"
proof -
  let ?T = "cm_imageSize (fst s)"
  have chk: "textureTypeSanityCheck (cm_flags (fst s)) type ''CubeMap::loadTexture():'' = Inr ()"
    using cap by (simp add: textureTypeSanityCheck_iff)
  from acc have "faceAccepted env type p x ?T 0" by simp
  then obtain img0 where f0: "importImage env (loadFilename type p x 0) = Some img0"
    "pixelSize img0 = (?T, ?T)"
    by (auto simp: faceAccepted_def split: option.splits)
  from loadTexture_same_size [OF chk imp tex f0 refl] fl
  obtain k where k: "1 \<le> k" "k \<le> 6"
    and k6: "k = 6 \<longrightarrow>
          (\<exists>w'. loadTexture env type p x s = Inr (fst s, w')
             \<and> trace w' =
                   trace (snd s) @ EvOpenFile (loadFilename type p x 0)
                   # EvSetSubImage texture PositiveX (uploadImage type img0)
                     # concat (map (loadedFaceEvents env type p x texture) [1..<6])
                   @ [EvGenerateMipmap texture])"
    and kn: "k \<noteq> 6 \<longrightarrow> \<not> faceAccepted env type p x ?T k"
    by auto
  from kn acc k have "k = 6" by (cases "k = 6") auto
  with k6 obtain w' where r: "loadTexture env type p x s = Inr (fst s, w')"
    and tr: "trace w' =
               trace (snd s) @ EvOpenFile (loadFilename type p x 0)
               # EvSetSubImage texture PositiveX (uploadImage type img0)
                 # concat (map (loadedFaceEvents env type p x texture) [1..<6])
               @ [EvGenerateMipmap texture]"
    by blast
  have acc': "\<forall>j \<in> set [1..<6]. faceAccepted env type p x ?T j" using acc by simp
  have none: "\<forall>e \<in> set ([] :: Event list). storageOfSize (?T, ?T) e" by simp
  have "mipmapTargets (EvOpenFile (loadFilename type p x 0) # []
               @ EvSetSubImage texture PositiveX (uploadImage type img0)
                 # concat (map (loadedFaceEvents env type p x texture) [1..<6])
               @ [EvGenerateMipmap texture]) = [texture]"
    unfolding load_projections(3) [OF none acc'] by (simp add: projections_Cons)
  with r tr show ?thesis
    by (intro exI [of _ "(fst s, w')"]) simp
qed

text \<open>
  C7, at a load of the depth faces. On the example cube map the color texture is at
  address 0 and the depth texture at address 1; it has both \<^verbatim>\<open>BuildMipmap\<close> and the
  color capability. The load of the depth faces regenerates one mip chain, that of the
  texture at address 1: the depth texture, not the color texture.
\<close>

theorem loadTexture_depth_mipmap_target:
  "cm_textures (fst exampleCubeMap) Color = Some 0
   \<and> cm_textures (fst exampleCubeMap) Depth = Some 1
   \<and> (\<exists>s' evs. loadTexture exampleEnv Depth ''cube'' ''hdr'' exampleCubeMap = Inr s'
        \<and> trace (snd s') = trace (snd exampleCubeMap) @ evs \<and> mipmapTargets evs = [1])"
  using loadTexture_mipmap_target [of Depth exampleCubeMap exampleEnv 1 "''cube''" "''hdr''"]
  by (simp add: exampleCubeMap_fields capabilityOf_def allFlags_def exampleEnv_def
      faceAccepted_def exampleImage_def)

subsection \<open>Rendering\<close>

lemma cameraCalls_append [simp]: "cameraCalls (xs @ ys) = cameraCalls xs @ cameraCalls ys"
  by (simp add: cameraCalls_def)

lemma cameraCalls_drawGroups [simp]: "cameraCalls (drawGroups sceneGraph flags) = []"
  by (induction "drawableGroups sceneGraph" arbitrary: sceneGraph)
     (auto simp: cameraCalls_def drawGroups_def)

lemma cameraCalls_Cons [simp]:
  "cameraCalls [] = []"
  "cameraCalls (EvUpdateOriginalViewingMatrix # es) = EvUpdateOriginalViewingMatrix # cameraCalls es"
  "cameraCalls (EvSwitchToFace i # es) = EvSwitchToFace i # cameraCalls es"
  "cameraCalls (EvRestoreTransformation # es) = EvRestoreTransformation # cameraCalls es"
  "cameraCalls (EvBindFramebuffer # es) = cameraCalls es"
  "cameraCalls (EvClearDepth # es) = cameraCalls es"
  "cameraCalls (EvClearColor n # es) = cameraCalls es"
  "cameraCalls (EvGenerateMipmap a # es) = cameraCalls es"
  by (simp_all add: cameraCalls_def)

lemma prepareToDraw_result:
  assumes "prepareToDraw env i s = Inr s'"
  shows "cm_flags (fst s') = cm_flags (fst s)" "cm_imageSize (fst s') = cm_imageSize (fst s)"
    "cm_textures (fst s') = cm_textures (fst s)"
    "trace (snd s') = trace (snd s) @ [EvClearDepth, EvClearColor 0]"
  using assms
  by (auto simp: prepareToDraw_def mapForDraw_def onFramebuffer_def Let_def abort_def
      split: if_splits sum.splits option.splits)

lemma prepareToDraw_ok:
  assumes "i < 6" "checkStatusComplete env = (\<lambda>fb. True)"
    "DepthTexture \<in> cm_flags (fst s) \<longrightarrow> cm_textures (fst s) Depth \<noteq> None"
  shows "\<exists>s'. prepareToDraw env i s = Inr s'"
  using assms
  by (auto simp: prepareToDraw_def mapForDraw_def onFramebuffer_def Let_def abort_def
      convertFaceIndexToCubeMapCoordinate_def split: if_splits sum.splits option.splits)


lemma renderFaces_done:
  "\<not> i < 6 \<Longrightarrow> renderFaces env faceRotation sceneGraph flags i camera s = Inr (camera, s)"
  by (subst renderFaces.simps) simp

lemma renderFaces_step:
  assumes "i < 6"
  shows "renderFaces env faceRotation sceneGraph flags i camera s =
           (case prepareToDraw env i (fst s, emit [EvSwitchToFace i] (snd s)) of
              Inl e \<Rightarrow> Inl e
            | Inr s2 \<Rightarrow>
                renderFaces env faceRotation sceneGraph flags (i + 1)
                  (switchToFace faceRotation i camera)
                  (fst s2, emit (drawGroups sceneGraph flags) (snd s2)))"
  using assms by (subst renderFaces.simps) (simp add: Let_def)

text \<open>
  What the face loop leaves when it returns: the snapshot, the viewport and the scene
  graph of the camera, the size, flags and textures of the cube map, and on the camera
  the calls \<^verbatim>\<open>switchToFace\<close> for the remaining faces in order.
\<close>

lemma renderFaces_result:
  assumes "renderFaces env faceRotation sceneGraph flags i camera s = Inr (camera', s')"
  shows "originalViewingMatrix camera' = originalViewingMatrix camera
         \<and> cameraViewport camera' = cameraViewport camera
         \<and> cameraSceneGraph camera' = cameraSceneGraph camera
         \<and> cm_flags (fst s') = cm_flags (fst s)
         \<and> cm_imageSize (fst s') = cm_imageSize (fst s)
         \<and> cm_textures (fst s') = cm_textures (fst s)
         \<and> (\<exists>evs. trace (snd s') = trace (snd s) @ evs
                \<and> cameraCalls evs = map EvSwitchToFace [i..<6])"
  using assms
proof (induction "6 - i" arbitrary: i camera s)
  case 0
  then have "\<not> i < 6" by simp
  with "0.prems" show ?case by (simp add: renderFaces_done)
next
  case (Suc n)
  then have i: "i < 6" by simp
  let ?s1 = "(fst s, emit [EvSwitchToFace i] (snd s))"
  from Suc.prems obtain s2 where p: "prepareToDraw env i ?s1 = Inr s2"
    and r: "renderFaces env faceRotation sceneGraph flags (i + 1)
              (switchToFace faceRotation i camera)
              (fst s2, emit (drawGroups sceneGraph flags) (snd s2)) = Inr (camera', s')"
    unfolding renderFaces_step [OF i] by (auto split: sum.splits)
  have "n = 6 - (i + 1)" using Suc.hyps(2) by simp
  from Suc.hyps(1) [OF this r] obtain evs where
    ih: "originalViewingMatrix camera' = originalViewingMatrix camera"
      "cameraViewport camera' = cameraViewport camera"
      "cameraSceneGraph camera' = cameraSceneGraph camera"
      "cm_flags (fst s') = cm_flags (fst s2)"
      "cm_imageSize (fst s') = cm_imageSize (fst s2)"
      "cm_textures (fst s') = cm_textures (fst s2)"
      "trace (snd s') = trace (snd s2) @ drawGroups sceneGraph flags @ evs"
      "cameraCalls evs = map EvSwitchToFace [i + 1..<6]"
    by (auto simp: switchToFace_def)
  note pr = prepareToDraw_result [OF p]
  have up: "[i..<6] = i # [i + 1..<6]" using i by (simp add: upt_conv_Cons)
  have "cameraCalls ([EvSwitchToFace i, EvClearDepth, EvClearColor 0]
                      @ drawGroups sceneGraph flags @ evs) = map EvSwitchToFace [i..<6]"
    unfolding up using ih(8) by simp
  moreover have "trace (snd s') = trace (snd s) @ ([EvSwitchToFace i, EvClearDepth, EvClearColor 0]
                      @ drawGroups sceneGraph flags @ evs)"
    using ih(7) pr(4) by simp
  ultimately show ?case
    using ih(1-6) pr(1-3) by (simp del: append.simps)
qed

lemma renderFaces_ok:
  assumes "checkStatusComplete env = (\<lambda>fb. True)"
    "DepthTexture \<in> cm_flags (fst s) \<longrightarrow> cm_textures (fst s) Depth \<noteq> None"
  shows "\<exists>camera' s'. renderFaces env faceRotation sceneGraph flags i camera s = Inr (camera', s')"
  using assms
proof (induction "6 - i" arbitrary: i camera s)
  case 0
  then show ?case by (simp add: renderFaces_done)
next
  case (Suc n)
  then have i: "i < 6" by simp
  let ?s1 = "(fst s, emit [EvSwitchToFace i] (snd s))"
  from prepareToDraw_ok [OF i Suc.prems(1), of ?s1] Suc.prems(2)
  obtain s2 where p: "prepareToDraw env i ?s1 = Inr s2" by auto
  note pr = prepareToDraw_result [OF p]
  have "n = 6 - (i + 1)" using Suc.hyps(2) by simp
  from Suc.hyps(1) [OF this Suc.prems(1),
      of "(fst s2, emit (drawGroups sceneGraph flags) (snd s2))" "switchToFace faceRotation i camera"]
    Suc.prems(2) pr(1,3)
  show ?case
    unfolding renderFaces_step [OF i] p by simp
qed


lemma renderToTexture_result:
  assumes "renderToTexture env faceRotation camera sceneGraph flags s = Inr (camera', s')"
  shows "localTransformation camera' = localTransformation camera
         \<and> originalViewingMatrix camera' = localTransformation camera
         \<and> cameraViewport camera' = cameraViewport camera
         \<and> cameraSceneGraph camera' = cameraSceneGraph camera
         \<and> (\<exists>evs. trace (snd s') = trace (snd s) @ evs
                \<and> cameraCalls evs =
                      EvUpdateOriginalViewingMatrix # map EvSwitchToFace [0..<6]
                      @ [EvRestoreTransformation])"
proof -
  let ?camera1 = "updateOriginalViewingMatrix camera"
  let ?w1 = "emit [EvUpdateOriginalViewingMatrix, EvBindFramebuffer] (snd s)"
  from assms obtain camera2 c w2 where
    r: "renderFaces env faceRotation sceneGraph flags 0 ?camera1 (fst s, ?w1) = Inr (camera2, (c, w2))"
    and cam: "camera' = restoreTransformation camera2"
    and tr: "trace (snd s') = trace w2 @ [EvRestoreTransformation]
             \<or> (\<exists>a. trace (snd s') = trace w2 @ [EvRestoreTransformation, EvGenerateMipmap a])"
    by (auto simp: renderToTexture_def Let_def abort_def
        split: if_splits sum.splits prod.splits option.splits)
  from renderFaces_result [OF r] obtain evs where
    f: "originalViewingMatrix camera2 = localTransformation camera"
      "cameraViewport camera2 = cameraViewport camera"
      "cameraSceneGraph camera2 = cameraSceneGraph camera"
    and tr2: "trace w2 = trace (snd s) @ [EvUpdateOriginalViewingMatrix, EvBindFramebuffer] @ evs"
    and cc: "cameraCalls evs = map EvSwitchToFace [0..<6]"
    by (auto simp: updateOriginalViewingMatrix_def)
  from tr obtain rest where rest: "trace (snd s') = trace w2 @ EvRestoreTransformation # rest"
    "cameraCalls rest = []"
    by auto
  have "trace (snd s') = trace (snd s)
          @ ([EvUpdateOriginalViewingMatrix, EvBindFramebuffer] @ evs
             @ EvRestoreTransformation # rest)"
    using rest(1) tr2 by simp
  moreover have "cameraCalls ([EvUpdateOriginalViewingMatrix, EvBindFramebuffer] @ evs
                              @ EvRestoreTransformation # rest)
                   = EvUpdateOriginalViewingMatrix # map EvSwitchToFace [0..<6]
                     @ [EvRestoreTransformation]"
    using cc rest(2) by simp
  ultimately show ?thesis
    using f cam by (simp add: restoreTransformation_def del: append.simps)
qed

lemma renderToTexture_ok:
  assumes "isInSceneGraph camera sceneGraph"
    "cameraViewport camera = (cm_imageSize (fst s), cm_imageSize (fst s))"
    "checkStatusComplete env = (\<lambda>fb. True)"
    "DepthTexture \<in> cm_flags (fst s) \<longrightarrow> cm_textures (fst s) Depth \<noteq> None"
    "ColorTexture \<in> cm_flags (fst s) \<longrightarrow> cm_textures (fst s) Color \<noteq> None"
  shows "\<exists>camera' s'. renderToTexture env faceRotation camera sceneGraph flags s = Inr (camera', s')"
proof -
  let ?camera1 = "updateOriginalViewingMatrix camera"
  let ?s1 = "(fst s, emit [EvUpdateOriginalViewingMatrix, EvBindFramebuffer] (snd s))"
  from renderFaces_ok [OF assms(3), of ?s1 faceRotation sceneGraph flags 0 ?camera1] assms(4)
  obtain camera2 c w2 where
    r: "renderFaces env faceRotation sceneGraph flags 0 ?camera1 ?s1 = Inr (camera2, (c, w2))"
    by auto
  from renderFaces_result [OF r] have "cm_flags c = cm_flags (fst s)"
    "cm_textures c = cm_textures (fst s)" by simp_all
  with assms(1,2,5) r show ?thesis
    by (auto simp: renderToTexture_def Let_def)
qed

text \<open>
  C9. A \<^verbatim>\<open>renderToTexture\<close> that returns leaves the camera with the local transformation
  it had at entry; on the camera it calls \<^verbatim>\<open>updateOriginalViewingMatrix\<close> once, first, then
  \<^verbatim>\<open>switchToFace\<close> for the faces 0 to 5, then \<^verbatim>\<open>restoreTransformation\<close>; a second call
  on the camera it returned takes the same snapshot. With the camera in the scene graph,
  the viewport equal to the size, a complete framebuffer and the textures of the
  capabilities in place, the call returns.
\<close>

theorem render_restores_camera:
  "(\<forall>camera' s'. renderToTexture env faceRotation camera sceneGraph flags s = Inr (camera', s') \<longrightarrow>
      localTransformation camera' = localTransformation camera
      \<and> (\<exists>evs. trace (snd s') = trace (snd s) @ evs
             \<and> cameraCalls evs =
                   EvUpdateOriginalViewingMatrix # map EvSwitchToFace [0..<6]
                   @ [EvRestoreTransformation])
      \<and> (\<forall>camera'' s''.
             renderToTexture env faceRotation camera' sceneGraph flags s' = Inr (camera'', s'') \<longrightarrow>
               originalViewingMatrix camera'' = originalViewingMatrix camera'
               \<and> localTransformation camera'' = localTransformation camera))
   \<and> (isInSceneGraph camera sceneGraph
        \<and> cameraViewport camera = (cm_imageSize (fst s), cm_imageSize (fst s))
        \<and> checkStatusComplete env = (\<lambda>fb. True)
        \<and> (DepthTexture \<in> cm_flags (fst s) \<longrightarrow> cm_textures (fst s) Depth \<noteq> None)
        \<and> (ColorTexture \<in> cm_flags (fst s) \<longrightarrow> cm_textures (fst s) Color \<noteq> None)
      \<longrightarrow> (\<exists>camera' s'. renderToTexture env faceRotation camera sceneGraph flags s
                           = Inr (camera', s')))"
proof (intro conjI allI impI)
  fix camera' s'
  assume r: "renderToTexture env faceRotation camera sceneGraph flags s = Inr (camera', s')"
  note 1 = renderToTexture_result [OF r]
  from 1 show "localTransformation camera' = localTransformation camera" by simp
  from 1 show "\<exists>evs. trace (snd s') = trace (snd s) @ evs
             \<and> cameraCalls evs =
                   EvUpdateOriginalViewingMatrix # map EvSwitchToFace [0..<6]
                   @ [EvRestoreTransformation]"
    by simp
  fix camera'' s''
  assume "renderToTexture env faceRotation camera' sceneGraph flags s' = Inr (camera'', s'')"
  note 2 = renderToTexture_result [OF this]
  from 1 2 show "originalViewingMatrix camera'' = originalViewingMatrix camera'" by simp
  from 1 2 show "localTransformation camera'' = localTransformation camera" by simp
next
  assume "isInSceneGraph camera sceneGraph
        \<and> cameraViewport camera = (cm_imageSize (fst s), cm_imageSize (fst s))
        \<and> checkStatusComplete env = (\<lambda>fb. True)
        \<and> (DepthTexture \<in> cm_flags (fst s) \<longrightarrow> cm_textures (fst s) Depth \<noteq> None)
        \<and> (ColorTexture \<in> cm_flags (fst s) \<longrightarrow> cm_textures (fst s) Color \<noteq> None)"
  then show "\<exists>camera' s'. renderToTexture env faceRotation camera sceneGraph flags s
                           = Inr (camera', s')"
    using renderToTexture_ok [of camera sceneGraph s env faceRotation flags] by blast
qed

theorem render_restores_camera_witness:
  "\<exists>camera' s'.
     renderToTexture exampleEnv (\<lambda>i m. m + i + 1)
       \<lparr>cameraSceneGraph = 0, cameraViewport = (4, 4), localTransformation = 7,
        originalViewingMatrix = 0\<rparr>
       \<lparr>sceneGraphId = 0, drawableGroups = [''default'']\<rparr> 0 exampleCubeMap = Inr (camera', s')
     \<and> localTransformation camera' = (7 :: nat)"
  using render_restores_camera [of exampleEnv "\<lambda>i m. m + i + 1"
      "\<lparr>cameraSceneGraph = 0, cameraViewport = (4, 4), localTransformation = 7 :: nat,
        originalViewingMatrix = 0\<rparr>"
      "\<lparr>sceneGraphId = 0, drawableGroups = [''default'']\<rparr>" 0 exampleCubeMap]
  by (simp add: exampleCubeMap_fields isInSceneGraph_def exampleEnv_def allFlags_def) blast

subsection \<open>Mip levels on every cube map\<close>

lemma sameTextures_refl [simp]: "sameTextures s s"
  by (simp add: sameTextures_def)

lemma sameTextures_trans: "sameTextures s s' \<Longrightarrow> sameTextures s' s'' \<Longrightarrow> sameTextures s s''"
  by (simp add: sameTextures_def)

lemma textureLevels_storage:
  "textureLevels s type =
     (case cm_textures (fst s) type of
        None \<Rightarrow> None
      | Some a \<Rightarrow>
          map_option fst (storage (heap (snd s) a)))"
  by (simp add: textureLevels_def split: option.splits)

lemma sameTextures_levels:
  assumes "sameTextures s s'"
  shows "textureLevels s' type = textureLevels s type"
proof -
  from assms have "cm_textures (fst s') = cm_textures (fst s)"
    and "\<And>a. storage (heap (snd s') a) = storage (heap (snd s) a)"
    by (simp_all add: sameTextures_def)
  then show ?thesis unfolding textureLevels_storage by (simp split: option.splits)
qed

lemma sameTextures_inv:
  assumes "sameTextures s s'"
  shows "ownedBelow s' = ownedBelow s" "mipPolicy s' = mipPolicy s"
  using assms sameTextures_levels [OF assms]
  by (simp_all add: sameTextures_def ownedBelow_def mipPolicy_def)

lemma sameTextures_emit [simp]: "sameTextures (c, w) (c, emit evs w)"
  by (simp add: sameTextures_def)

lemma sameTextures_setSubImage [simp]: "sameTextures (c, w) (c, setSubImage a coord img w)"
  by (simp add: sameTextures_def setSubImage_def onTexture_def split: option.splits)

lemma sameTextures_generateMipmap [simp]: "sameTextures (c, w) (c, generateMipmap a w)"
  by (simp add: sameTextures_def generateMipmap_def onTexture_def split: option.splits)

lemma saveTexture_sameTextures:
  assumes "saveTexture env type p s = Inr (b, s')"
  shows "sameTextures s s'"
proof (cases "textureTypeSanityCheck (cm_flags (fst s)) type ''CubeMap::saveTexture():''")
  case (Inl e)
  with assms show ?thesis by (simp add: saveTexture_def abort_def)
next
  case (Inr u)
  then have cap: "capabilityOf type \<in> cm_flags (fst s)" by (simp add: textureTypeSanityCheck_iff)
  show ?thesis
  proof (cases "converterAvailable env")
    case False
    with assms Inr show ?thesis by (simp add: saveTexture_def)
  next
    case True
    show ?thesis
    proof (cases "cm_textures (fst s) type")
      case None
      with assms Inr True show ?thesis by (simp add: saveTexture_def saveFaces_null)
    next
      case (Some a)
      from saveTexture_run [OF cap True Some, of p] assms
      obtain evs where "s' = (fst s, emit evs (snd s))" by (metis Inr_inject prod.inject)
      then show ?thesis using sameTextures_emit [of "fst s" "snd s" evs] by simp
    qed
  qed
qed

lemma loadFaces_sameTextures:
  assumes "0 < i" "loadFaces env type p x texture i edge s = Inr s'"
  shows "sameTextures s s'"
  using assms
proof (induction "6 - i" arbitrary: i s)
  case 0
  then show ?case by (simp add: loadFaces_done)
next
  case (Suc n)
  then have i: "i < 6" by simp
  show ?case
  proof (cases "faceAccepted env type p x edge i")
    case False
    from loadFaces_step_abort [OF Suc.prems(1) i False, of texture s] Suc.prems(2)
    show ?thesis by auto
  next
    case True
    let ?s1 = "(fst s,
              setSubImage texture (cubeMapCoordinates ! i)
                (uploadImage type (the (importImage env (loadFilename type p x i))))
                (emit [EvOpenFile (loadFilename type p x i)] (snd s)))"
    have lv: "live (fst s) texture"
    proof (rule ccontr)
      assume "\<not> live (fst s) texture"
      from loadFaces_step_dangling [OF Suc.prems(1) i True this] Suc.prems(2)
      show False by simp
    qed
    have "n = 6 - (i + 1)" using Suc.hyps(2) by simp
    moreover have "0 < i + 1" by simp
    moreover have "loadFaces env type p x texture (i + 1) edge ?s1 = Inr s'"
      using Suc.prems(2) unfolding loadFaces_step_ok [OF Suc.prems(1) i True lv] .
    ultimately have "sameTextures ?s1 s'" by (rule Suc.hyps(1))
    moreover have "sameTextures s ?s1"
      using sameTextures_trans [OF sameTextures_emit sameTextures_setSubImage, of "fst s" "snd s"]
      by simp
    ultimately show ?thesis by (rule sameTextures_trans [rotated])
  qed
qed


lemma sameTextures_wellFormed: "sameTextures s s' \<Longrightarrow> wellFormed s \<Longrightarrow> wellFormed s'"
  using sameTextures_inv [of s s'] by (simp add: wellFormed_def sameTextures_def)

lemma reset_wellFormed:
  assumes "reset S s = Inr (b, s')" "wellFormed s"
  shows "wellFormed s'"
  using reset_inv [of s S b s'] assms by (cases b) (auto simp: wellFormed_def)

lemma CubeMap_new_wellFormed: "CubeMap_new S F w = Inr s \<Longrightarrow> wellFormed s"
  using CubeMap_new_inv [of S F w s] by (simp add: wellFormed_def)

lemma saveTexture_wellFormed:
  "saveTexture env type p s = Inr (b, s') \<Longrightarrow> wellFormed s \<Longrightarrow> wellFormed s'"
  using saveTexture_sameTextures sameTextures_wellFormed by blast

text \<open>
  What a load that returns has done: the first half of the loop body accepted the first
  face and left a state whose textures the rest of the load kept.
\<close>

lemma loadTexture_returns:
  assumes r: "loadTexture env type p x s = Inr s'"
  shows "\<exists>texture img T s1.
           capabilityOf type \<in> cm_flags (fst s) \<and> importerAvailable env
           \<and> cm_textures (fst s) type = Some texture
           \<and> openAndCheckFace env type p x 0 0 s = Inr (img, T, s1)
           \<and> live (fst s1) texture \<and> sameTextures s1 s'"
proof -
  from r have chk: "textureTypeSanityCheck (cm_flags (fst s)) type ''CubeMap::loadTexture():'' = Inr ()"
    by (cases "textureTypeSanityCheck (cm_flags (fst s)) type ''CubeMap::loadTexture():''")
       (simp_all add: loadTexture_def abort_def)
  then have cap: "capabilityOf type \<in> cm_flags (fst s)" by (simp add: textureTypeSanityCheck_iff)
  from r chk have imp: "importerAvailable env"
    by (cases "importerAvailable env") (simp_all add: loadTexture_def abort_def)
  from r chk imp obtain texture where tex: "cm_textures (fst s) type = Some texture"
    by (cases type; cases "cm_textures (fst s) type") (simp_all add: loadTexture_def abort_def)
  from r obtain c w where lf: "loadFaces env type p x texture 0 0 s = Inr (c, w)"
    and s': "s' = (c, generateMipmap texture w) \<or> s' = (c, w)"
    unfolding loadTexture_unfold [OF chk imp tex]
    by (auto simp: throughPointer_def abort_def split: sum.splits prod.splits if_splits)
  from lf obtain img T s1 where o: "openAndCheckFace env type p x 0 0 s = Inr (img, T, s1)"
    and lv: "live (fst s1) texture"
    and lf1: "loadFaces env type p x texture 1 T
                (fst s1, setSubImage texture PositiveX (uploadImage type img) (snd s1)) = Inr (c, w)"
    unfolding loadFaces_first
    by (auto simp: throughPointer_def abort_def split: sum.splits prod.splits if_splits)
  have "sameTextures s1 (fst s1, setSubImage texture PositiveX (uploadImage type img) (snd s1))"
    using sameTextures_setSubImage [of "fst s1" "snd s1"] by simp
  moreover have "sameTextures (fst s1, setSubImage texture PositiveX (uploadImage type img) (snd s1))
                   (c, w)"
    using loadFaces_sameTextures [OF _ lf1] by simp
  moreover have "sameTextures (c, w) s'"
    using s' by auto
  ultimately have "sameTextures s1 s'"
    by (blast intro: sameTextures_trans)
  with cap imp tex o lv show ?thesis by blast
qed

lemma loadTexture_wellFormed:
  assumes r: "loadTexture env type p x s = Inr s'" and wf: "wellFormed s"
  shows "wellFormed s'"
proof -
  from loadTexture_returns [OF r] obtain img T s1 where
    o: "openAndCheckFace env type p x 0 0 s = Inr (img, T, s1)" and same: "sameTextures s1 s'"
    by blast
  let ?s0 = "(fst s, emit [EvOpenFile (loadFilename type p x 0)] (snd s))"
  from openAndCheckFace_first_reset [OF o] obtain b where "reset T ?s0 = Inr (b, s1)"
    by blast
  moreover have "wellFormed ?s0"
    using sameTextures_wellFormed [OF sameTextures_emit, of "fst s" "snd s"] wf by simp
  ultimately have "wellFormed s1" by (rule reset_wellFormed)
  with same show ?thesis by (rule sameTextures_wellFormed)
qed

lemma prepareToDraw_world:
  assumes "prepareToDraw env i s = Inr s'"
  shows "snd s' = emit [EvClearDepth, EvClearColor 0] (snd s)"
  using assms
  by (auto simp: prepareToDraw_def Let_def abort_def split: if_splits sum.splits option.splits)

lemma renderFaces_sameTextures:
  assumes "renderFaces env faceRotation sceneGraph flags i camera s = Inr (camera', s')"
  shows "sameTextures s s'"
  using assms
proof (induction "6 - i" arbitrary: i camera s)
  case 0
  then have "\<not> i < 6" by simp
  with "0.prems" show ?case by (simp add: renderFaces_done)
next
  case (Suc n)
  then have i: "i < 6" by simp
  let ?s1 = "(fst s, emit [EvSwitchToFace i] (snd s))"
  from Suc.prems obtain s2 where p: "prepareToDraw env i ?s1 = Inr s2"
    and r: "renderFaces env faceRotation sceneGraph flags (i + 1)
              (switchToFace faceRotation i camera)
              (fst s2, emit (drawGroups sceneGraph flags) (snd s2)) = Inr (camera', s')"
    unfolding renderFaces_step [OF i] by (auto split: sum.splits)
  have "n = 6 - (i + 1)" using Suc.hyps(2) by simp
  from Suc.hyps(1) [OF this r]
  have 2: "sameTextures (fst s2, emit (drawGroups sceneGraph flags) (snd s2)) s'" .
  have "sameTextures s (fst s2, emit (drawGroups sceneGraph flags) (snd s2))"
    using prepareToDraw_result(1-3) [OF p] prepareToDraw_world [OF p]
    by (simp add: sameTextures_def)
  then show ?case using 2 by (rule sameTextures_trans)
qed

lemma renderToTexture_sameTextures:
  assumes "renderToTexture env faceRotation camera sceneGraph flags s = Inr (camera', s')"
  shows "sameTextures s s'"
proof -
  let ?camera1 = "updateOriginalViewingMatrix camera"
  let ?s1 = "(fst s, emit [EvUpdateOriginalViewingMatrix, EvBindFramebuffer] (snd s))"
  from assms obtain camera2 c w2 where
    r: "renderFaces env faceRotation sceneGraph flags 0 ?camera1 ?s1 = Inr (camera2, (c, w2))"
    and s': "s' = (c, emit [EvRestoreTransformation] w2)
             \<or> (\<exists>a. s' = (c, generateMipmap a (emit [EvRestoreTransformation] w2)))"
    by (auto simp: renderToTexture_def Let_def abort_def
        split: if_splits sum.splits prod.splits option.splits)
  have "sameTextures s ?s1" using sameTextures_emit [of "fst s" "snd s"] by simp
  moreover have "sameTextures ?s1 (c, w2)" using renderFaces_sameTextures [OF r] .
  moreover have "sameTextures (c, w2) s'"
    using s' sameTextures_trans [OF sameTextures_emit sameTextures_generateMipmap] by auto
  ultimately show ?thesis by (blast intro: sameTextures_trans)
qed

lemma reachable_wellFormed: "reachable s \<Longrightarrow> wellFormed s"
proof (induction rule: reachable.induct)
  case (new imageSize flags w s)
  then show ?case by (rule CubeMap_new_wellFormed)
next
  case (reset s imageSize b s')
  then show ?case using reset_wellFormed by blast
next
  case (save s env type imageFilePrefix b s')
  then show ?case using saveTexture_wellFormed by blast
next
  case (load s env type imageFilePrefix imageFileExtension s')
  then show ?case using loadTexture_wellFormed by blast
next
  case (render s env faceRotation camera sceneGraph flags camera' s')
  then show ?case using renderToTexture_sameTextures sameTextures_wellFormed by blast
qed


text \<open>
  The cube map that a render leaves does not depend on the transformations of the camera:
  a camera without them, in the same scene graph and with the same viewport, leaves the
  same one.
\<close>

lemma renderFaces_any_camera:
  "map_sum id snd (renderFaces env faceRotation sceneGraph flags i camera s)
     = map_sum id snd (renderFaces env faceRotation' sceneGraph flags i camera2 s)"
proof (induction "6 - i" arbitrary: i camera camera2 s)
  case 0
  then have "\<not> i < 6" by simp
  then show ?case by (simp add: renderFaces_done)
next
  case (Suc n)
  then have i: "i < 6" by simp
  have n: "n = 6 - Suc i" using Suc.hyps(2) by simp
  note ih = Suc.hyps(1) [OF n]
  show ?case
    unfolding renderFaces_step [OF i]
    by (cases "prepareToDraw env i (fst s, emit [EvSwitchToFace i] (snd s))")
       (simp_all add: ih)
qed

lemma renderToTexture_any_camera:
  assumes "renderToTexture env faceRotation camera sceneGraph flags s = Inr (camera', s')"
  shows "\<exists>camera''. renderToTexture env (\<lambda>i u. u) (plainCamera camera) sceneGraph flags s
                       = Inr (camera'', s')"
proof -
  let ?s1 = "(fst s, emit [EvUpdateOriginalViewingMatrix, EvBindFramebuffer] (snd s))"
  from assms have pre: "isInSceneGraph (plainCamera camera) sceneGraph"
    "cameraViewport (plainCamera camera) = (cm_imageSize (fst s), cm_imageSize (fst s))"
    by (auto simp: renderToTexture_def plainCamera_def isInSceneGraph_def abort_def
        split: if_splits)
  from assms obtain camera2 c w2 where
    r: "renderFaces env faceRotation sceneGraph flags 0 (updateOriginalViewingMatrix camera) ?s1
          = Inr (camera2, (c, w2))"
    by (auto simp: renderToTexture_def Let_def abort_def
        split: if_splits sum.splits prod.splits option.splits)
  from renderFaces_any_camera [of env faceRotation sceneGraph flags 0
      "updateOriginalViewingMatrix camera" ?s1 "\<lambda>i u. u"
      "updateOriginalViewingMatrix (plainCamera camera)"] r
  obtain camera3 where
    r': "renderFaces env (\<lambda>i u. u) sceneGraph flags 0
           (updateOriginalViewingMatrix (plainCamera camera)) ?s1 = Inr (camera3, (c, w2))"
    by (cases "renderFaces env (\<lambda>i u. u) sceneGraph flags 0
           (updateOriginalViewingMatrix (plainCamera camera)) ?s1") auto
  from assms r have
    "s' = (if BuildMipmap \<in> cm_flags c \<and> ColorTexture \<in> cm_flags c
           then (c, generateMipmap (the (cm_textures c Color)) (emit [EvRestoreTransformation] w2))
           else (c, emit [EvRestoreTransformation] w2))"
    and "BuildMipmap \<in> cm_flags c \<and> ColorTexture \<in> cm_flags c \<longrightarrow> cm_textures c Color \<noteq> None"
    by (auto simp: renderToTexture_def Let_def abort_def
        split: if_splits sum.splits prod.splits option.splits)
  with pre r' show ?thesis
    by (auto simp: renderToTexture_def Let_def)
qed

lemma reachable_render:
  assumes "reachable s"
    and "renderToTexture env faceRotation camera sceneGraph flags s = Inr (camera', s')"
  shows "reachable s'"
  using renderToTexture_any_camera [OF assms(2)] reachable.render [OF assms(1)] by blast

text \<open>
  C3. On a cube map made by the constructor and any number of calls, with the color
  capability, \<^verbatim>\<open>reset(S)\<close> for a positive \<open>S\<close> returns, and then the color texture has
  one level without \<^verbatim>\<open>BuildMipmap\<close> and \<open>\<lfloor>log\<^sub>2 S\<rfloor> + 1\<close> levels with it; a depth
  texture has one level.
\<close>

theorem mip_level_policy:
  assumes "reachable s" and "0 < S" and "ColorTexture \<in> cm_flags (fst s)"
  shows "\<exists>b s'. reset S s = Inr (b, s')
           \<and> textureLevels s' Color =
                 Some (if BuildMipmap \<in> cm_flags (fst s)
                       then \<lfloor>log 2 (real_of_int S)\<rfloor> + 1 else 1)
           \<and> (DepthTexture \<in> cm_flags (fst s) \<longrightarrow> textureLevels s' Depth = Some 1)"
proof -
  from reachable_wellFormed [OF assms(1)]
  have own: "ownedBelow s" and pol: "0 < cm_imageSize (fst s) \<Longrightarrow> mipPolicy s"
    by (simp_all add: wellFormed_def)
  have "\<exists>b s'. reset S s = Inr (b, s')"
    using reset_same [of s S] reset_changed [of "fst s" S "snd s"] assms(2)
    by (cases "cm_imageSize (fst s) = S") auto
  then obtain b s' where r: "reset S s = Inr (b, s')" by blast
  have "mipPolicy s' \<and> cm_imageSize (fst s') = S"
  proof (cases b)
    case True
    then show ?thesis using reset_inv(3) [OF own r] by simp
  next
    case False
    then have "s' = s" using reset_inv(4) [OF own r] by simp
    moreover have "cm_imageSize (fst s) = S"
      using r False by (cases s) (auto simp: reset_def abort_def Let_def split: if_splits sum.splits)
    ultimately show ?thesis using pol assms(2) by simp
  qed
  moreover have "cm_flags (fst s') = cm_flags (fst s)" using reset_inv(2) [OF own r] .
  moreover have "int (log2 (nat S)) = \<lfloor>log 2 (real_of_int S)\<rfloor>"
    using log2_floor [of "nat S"] assms(2) by simp
  ultimately show ?thesis
    using r assms(3) by (auto simp: mipPolicy_def)
qed

theorem mip_level_policy_witness:
  "\<exists>s0 b s'. CubeMap_new 4 {ColorTexture, DepthTexture, BuildMipmap} emptyWorld = Inr s0
      \<and> reset 64 s0 = Inr (b, s')
      \<and> textureLevels s' Color = Some 7 \<and> textureLevels s' Depth = Some 1"
proof -
  let ?F = "{ColorTexture, DepthTexture, BuildMipmap}"
  obtain s0 where n: "CubeMap_new 4 ?F emptyWorld = Inr s0"
    using reset_changed [of "CubeMap_init ?F" 4 "emptyWorld\<lparr>seamlessCubeMapTexture := True\<rparr>"]
    by (auto simp: CubeMap_new_def CubeMap_init_def)
  have fl: "cm_flags (fst s0) = ?F" using CubeMap_new_inv(2) [OF n] .
  have lg: "\<lfloor>log 2 (64::real)\<rfloor> = 6"
    using floor_log_nat_eq_if [of 2 6 64] by simp
  show ?thesis
    using mip_level_policy [OF reachable.new [OF n], of 64] n fl lg by auto
qed

subsection \<open>Load and resize\<close>

lemma recreateColorTexture_textures:
  "cm_textures (fst (recreateColorTexture sz s)) =
     (if ColorTexture \<in> cm_flags (fst s) then (cm_textures (fst s))(Color \<mapsto> nextAddr (snd s))
      else cm_textures (fst s))"
  "nextAddr (snd (recreateColorTexture sz s)) =
     (if ColorTexture \<in> cm_flags (fst s) then Suc (nextAddr (snd s)) else nextAddr (snd s))"
  by (cases s; simp add: recreateColorTexture_def makeUniqueTexture_def Let_def)+

lemma recreateDepthTexture_textures:
  "cm_textures (fst (recreateDepthTexture sz s)) =
     (if DepthTexture \<in> cm_flags (fst s) then (cm_textures (fst s))(Depth \<mapsto> nextAddr (snd s))
      else cm_textures (fst s))"
  by (cases s; simp add: recreateDepthTexture_def makeUniqueTexture_def Let_def)

text \<open>
  Recreating the textures destroys the texture that the cube map held for an enabled
  type: a pointer to it dangles afterwards.
\<close>

lemma recreateTexture_dangling:
  assumes own: "ownedBelow s" and cap: "capabilityOf type \<in> cm_flags (fst s)"
    and tex: "cm_textures (fst s) type = Some texture"
  shows "\<not> live (fst (recreateTexture s)) texture"
proof -
  have lt: "texture < nextAddr (snd s)" using own tex by (auto simp: ownedBelow_def)
  have other: "type = Color \<Longrightarrow> cm_textures (fst s) Depth \<noteq> Some texture"
    "type = Depth \<Longrightarrow> cm_textures (fst s) Color \<noteq> Some texture"
    using own tex by (auto simp: ownedBelow_def)
  show ?thesis
    using lt other cap
    by (cases type)
       (auto simp: live_def recreateTexture_def Let_def recreateColorTexture_textures
          recreateDepthTexture_textures recreateColorTexture_fields capabilityOf_def)
qed

lemma reset_dangling:
  assumes own: "ownedBelow s" and cap: "capabilityOf type \<in> cm_flags (fst s)"
    and tex: "cm_textures (fst s) type = Some texture"
    and ne: "cm_imageSize (fst s) \<noteq> S" and r: "reset S s = Inr (b, s1)"
  shows "\<not> live (fst s1) texture"
proof -
  obtain c w where s: "s = (c, w)" by (cases s)
  have pos: "0 < S" using ne r s by (cases "0 < S") (simp_all add: reset_abort)
  let ?s0 = "(c\<lparr>cm_imageSize := S\<rparr>, w)"
  from reset_changed [of c S w] ne pos r s obtain fb where
    s1: "s1 = ((fst (recreateFramebuffer (recreateTexture ?s0)))\<lparr>cm_frameBuffer := fb\<rparr>,
               snd (recreateTexture ?s0))"
    by auto
  have "ownedBelow ?s0" using own s by (simp add: ownedBelow_def)
  from recreateTexture_dangling [OF this, of type texture] cap tex s
  have "\<not> live (fst (recreateTexture ?s0)) texture" by simp
  then show ?thesis
    by (simp add: s1 live_def recreateFramebuffer_fields)
qed

text \<open>
  On a cube map that owns its textures, a load never returns after a resize: a load that
  returns has kept the size.
\<close>

lemma loadTexture_keeps_size:
  assumes own: "ownedBelow s" and r: "loadTexture env type p x s = Inr s'"
  shows "cm_imageSize (fst s') = cm_imageSize (fst s)"
proof -
  from loadTexture_returns [OF r] obtain texture img T s1 where
    cap: "capabilityOf type \<in> cm_flags (fst s)"
    and tex: "cm_textures (fst s) type = Some texture"
    and o: "openAndCheckFace env type p x 0 0 s = Inr (img, T, s1)"
    and lv: "live (fst s1) texture" and same: "sameTextures s1 s'"
    by blast
  let ?s0 = "(fst s, emit [EvOpenFile (loadFilename type p x 0)] (snd s))"
  from openAndCheckFace_first_reset [OF o] obtain b where rs: "reset T ?s0 = Inr (b, s1)"
    by blast
  have own0: "ownedBelow ?s0" using own by (simp add: ownedBelow_def)
  have "cm_imageSize (fst ?s0) = T"
  proof (rule ccontr)
    assume "cm_imageSize (fst ?s0) \<noteq> T"
    from reset_dangling [OF own0 _ _ this rs, of type texture] cap tex lv
    show False by simp
  qed
  with rs have "s1 = ?s0" by (simp add: reset_same)
  with same show ?thesis by (simp add: sameTextures_def)
qed



end
